theory Spec2Isabelle
  imports Complex_Main
begin

section \<open>Strings, as the worker's JavaScript sees them\<close>

text \<open>
  A JavaScript string is a sequence of code units. The model uses \<^typ>\<open>string\<close>, whose
  characters are the code units below 256; \<open>length\<close> is \<open>String.length\<close>, \<open>take\<close> and
  \<open>drop\<close> are \<open>substring\<close>. Among these code units the class \<open>\s\<close> (and what
  \<open>trim\<close> removes) is tab, line feed, vertical tab, form feed, carriage return, space and
  the no-break space.
\<close>

definition isSpace :: "char \<Rightarrow> bool" where
  "isSpace c = (c \<in> set [CHR 0x09, CHR 0x0A, CHR 0x0B, CHR 0x0C, CHR 0x0D, CHR 0x20, CHR 0xA0])"

text \<open>The line terminators that \<open>.\<close> does not match (no \<open>s\<close> flag).\<close>

definition isLineTerminator :: "char \<Rightarrow> bool" where
  "isLineTerminator c = (c = CHR 0x0A \<or> c = CHR 0x0D)"

fun startsWith :: "string \<Rightarrow> string \<Rightarrow> bool" where
  "startsWith s [] = True"
| "startsWith [] (p # ps) = False"
| "startsWith (c # cs) (p # ps) = (c = p \<and> startsWith cs ps)"

definition endsWith :: "string \<Rightarrow> string \<Rightarrow> bool" where
  "endsWith s p = startsWith (rev s) (rev p)"

text \<open>\<open>String.includes\<close>: the pattern occurs at some position.\<close>

fun includesStr :: "string \<Rightarrow> string \<Rightarrow> bool" where
  "includesStr [] p = startsWith [] p"
| "includesStr (c # cs) p = (startsWith (c # cs) p \<or> includesStr cs p)"

text \<open>\<open>Array.join\<close>.\<close>

fun join :: "string \<Rightarrow> string list \<Rightarrow> string" where
  "join sep [] = []"
| "join sep [x] = x"
| "join sep (x # y # ys) = x @ sep @ join sep (y # ys)"

text \<open>\<open>String.split\<close> on a one-character separator: never empty, \<open>''''\<close> gives \<open>['''']\<close>.\<close>

fun split :: "char \<Rightarrow> string \<Rightarrow> string list" where
  "split sep [] = [[]]"
| "split sep (c # cs) =
     (if c = sep then [] # split sep cs
      else (case split sep cs of [] \<Rightarrow> [[c]] | w # ws \<Rightarrow> (c # w) # ws))"

text \<open>
  \<open>toLowerCase\<close> on the letters A to Z. The patterns matched with the \<open>i\<close> flag below
  consist of lower-case ASCII letters and spaces; without the \<open>u\<close> flag a pattern
  character of that kind matches exactly the input characters that this function maps
  to it.
\<close>

definition lowerChar :: "char \<Rightarrow> char" where
  "lowerChar c =
     (let n = (of_char c :: nat) in if 65 \<le> n \<and> n \<le> 90 then char_of (n + 32) else c)"

definition toLowerCase :: "string \<Rightarrow> string" where
  "toLowerCase s = map lowerChar s"

text \<open>
  Decimal rendering of a non-negative integer, as template literals do for the numbers
  below \<open>10^21\<close> (from there on JavaScript prints an exponent).
\<close>

definition digitChar :: "nat \<Rightarrow> char" where
  "digitChar d = char_of (48 + d)"

function showNat :: "nat \<Rightarrow> string" where
  "showNat n = (if n < 10 then [digitChar n] else showNat (n div 10) @ [digitChar (n mod 10)])"
  by pat_completeness auto
termination
  by (relation "measure id") auto

declare showNat.simps [simp del]

section \<open>Errors\<close>

text \<open>
  The exceptions the worker throws: \<open>parseGitHubUrl\<close>'s
  \<open>Error("Invalid GitHub repository URL")\<close>, \<open>createHeaders\<close>'s error for a missing
  token, and the runtime's \<open>TypeError\<close>.
\<close>

datatype error = InvalidGitHubUrl | MissingPat | TypeError

section \<open>tools.ts: parseGitHubUrl\<close>

text \<open>
  The regular expression is
  \<^verbatim>\<open>/(?:https?:\/\/)?github\.com\/([^\/]+)\/([^\/\s?#]+)/\<close>, unanchored.
  \<open>stripScheme\<close> is the optional group, \<open>matchCore\<close> the rest of the pattern at a
  fixed position, \<open>matchHere\<close> the whole pattern at a fixed position (the group is tried
  first and dropped on failure), \<open>regexSearch\<close> the search for the leftmost position.
  Both character classes are greedy. The first is followed by a slash, which it cannot
  itself match, so only its longest run can succeed; the second ends the pattern.
\<close>

definition stripScheme :: "string \<Rightarrow> string option" where
  "stripScheme s =
     (if startsWith s ''https://'' then Some (drop 8 s)
      else if startsWith s ''http://'' then Some (drop 7 s)
      else None)"

definition ownerChar :: "char \<Rightarrow> bool" where
  "ownerChar c = (c \<noteq> CHR ''/'')"

definition repoChar :: "char \<Rightarrow> bool" where
  "repoChar c = (c \<noteq> CHR ''/'' \<and> \<not> isSpace c \<and> c \<noteq> CHR ''?'' \<and> c \<noteq> CHR ''#'')"

definition matchCore :: "string \<Rightarrow> (string \<times> string) option" where
  "matchCore s =
     (if startsWith s ''github.com/'' then
        (let r = drop 11 s; ownr = takeWhile ownerChar r in
         if ownr = [] then None
         else (case dropWhile ownerChar r of
                 [] \<Rightarrow> None
               | _ # r' \<Rightarrow>
                   (let repo = takeWhile repoChar r' in
                    if repo = [] then None else Some (ownr, repo))))
      else None)"

definition matchHere :: "string \<Rightarrow> (string \<times> string) option" where
  "matchHere s =
     (case stripScheme s of
        Some r \<Rightarrow> (case matchCore r of Some m \<Rightarrow> Some m | None \<Rightarrow> matchCore s)
      | None \<Rightarrow> matchCore s)"

fun regexSearch :: "string \<Rightarrow> (string \<times> string) option" where
  "regexSearch [] = matchHere []"
| "regexSearch (c # cs) =
     (case matchHere (c # cs) of Some m \<Rightarrow> Some m | None \<Rightarrow> regexSearch cs)"

text \<open>\<open>repo.replace(/\.git$/, '')\<close>.\<close>

definition stripDotGit :: "string \<Rightarrow> string" where
  "stripDotGit r = (if endsWith r ''.git'' then take (length r - 4) r else r)"

definition parseGitHubUrl :: "string \<Rightarrow> error + (string \<times> string)" where
  "parseGitHubUrl url =
     (case regexSearch url of
        None \<Rightarrow> Inl InvalidGitHubUrl
      | Some (ownr, repo) \<Rightarrow> Inr (ownr, stripDotGit repo))"

section \<open>tools.ts: truncateText\<close>

definition truncateText :: "string \<Rightarrow> nat \<Rightarrow> string" where
  "truncateText text maxLength =
     (if length text \<le> maxLength then text else take maxLength text @ ''...'')"

section \<open>utils.ts: the data model\<close>

datatype nodeType = File | Dir

record FileNode =
  fnPath :: string
  fnType :: nodeType
  fnSize :: "nat option"

record IssueInfo =
  issNumber :: nat
  issTitle :: string
  issBody :: "string option"
  issState :: string
  issLabels :: "string list"
  issAuthor :: string
  issCreatedAt :: string
  issCommentsCount :: nat
  issUrl :: string

record PRInfo =
  prNumber :: nat
  prTitle :: string
  prBody :: "string option"
  prState :: string
  prAuthor :: string
  prCreatedAt :: string
  prUrl :: string
  prDraft :: bool

text \<open>
  \<open>indexedAt\<close> is an ISO string in the source, written by \<open>toISOString\<close> and read back
  by \<open>new Date(...).getTime()\<close>; the model keeps the milliseconds it stands for.
  \<open>languages\<close> is a \<open>Record<string, number>\<close>, kept as the list of its entries in
  \<open>Object.entries\<close> order.
\<close>

record RepoIndex =
  name :: string
  fullName :: string
  description :: "string option"
  htmlUrl :: string
  defaultBranch :: string
  language :: "string option"
  topics :: "string list"
  stars :: nat
  forks :: nat
  openIssuesCount :: nat
  readme :: "string option"
  contributing :: "string option"
  fileTree :: "FileNode list"
  issues :: "IssueInfo list"
  pullRequests :: "PRInfo list"
  indexedAt :: int
  languages :: "(string \<times> int) list"

text \<open>\<open>CACHE_TTL\<close>, in seconds.\<close>

definition CACHE_TTL :: int where
  "CACHE_TTL = 1800"

text \<open>A string that JavaScript treats as true: present and not empty.\<close>

definition truthy :: "string option \<Rightarrow> bool" where
  "truthy x = (case x of None \<Rightarrow> False | Some s \<Rightarrow> s \<noteq> [])"

section \<open>tools.ts: the GitHub client\<close>

text \<open>The response bodies of the GitHub REST API, with the fields the worker reads.\<close>

record RepoMetadata =
  mdName :: string
  mdFullName :: string
  mdDescription :: "string option"
  mdHtmlUrl :: string
  mdDefaultBranch :: string
  mdLanguage :: "string option"
  mdTopics :: "string list option"
  mdStargazersCount :: nat
  mdForks :: nat
  mdOpenIssuesCount :: nat

record ContentData =
  cdContent :: "string option"
  cdEncoding :: "string option"

record DirItem =
  diPath :: string
  diType :: string
  diSize :: "nat option"

record RawIssue =
  rawNumber :: nat
  rawTitle :: string
  rawBody :: "string option"
  rawState :: string
  rawLabels :: "string list"
  rawUserLogin :: string
  rawCreatedAt :: string
  rawComments :: nat
  rawHtmlUrl :: string
  rawPullRequest :: bool

record RawPull =
  pullNumber :: nat
  pullTitle :: string
  pullBody :: "string option"
  pullState :: string
  pullUserLogin :: string
  pullCreatedAt :: string
  pullHtmlUrl :: string
  pullDraft :: bool

text \<open>
  GitHub, as \<open>githubFetch<T>(url, headers)\<close> sees it: one field for each \<open>T\<close> the worker
  asks for, from the URL to the parsed body, \<open>None\<close> where \<open>githubFetch\<close> returns
  \<open>null\<close> (a status that is not ok, or an exception, which it catches). The headers are
  the same in every call and are left out. \<open>getListing\<close> is \<open>None\<close> as well where the
  body is not an array. \<open>rawPullRequest\<close> says that the \<open>pull_request\<close> field of an
  item is present. \<open>atob\<close> is the runtime's base64 decoder, \<open>None\<close> where it throws.
\<close>

record GitHub =
  getMetadata :: "string \<Rightarrow> RepoMetadata option"
  getContent :: "string \<Rightarrow> ContentData option"
  getListing :: "string \<Rightarrow> DirItem list option"
  getIssues :: "string \<Rightarrow> RawIssue list option"
  getPulls :: "string \<Rightarrow> RawPull list option"
  getLanguages :: "string \<Rightarrow> (string \<times> int) list option"
  atob :: "string \<Rightarrow> string option"

definition apiRepo :: "string \<Rightarrow> string \<Rightarrow> string" where
  "apiRepo ownr repo = ''https://api.github.com/repos/'' @ ownr @ ''/'' @ repo"

definition fetchRepoMetadata :: "GitHub \<Rightarrow> string \<Rightarrow> string \<Rightarrow> RepoMetadata option" where
  "fetchRepoMetadata gh ownr repo = getMetadata gh (apiRepo ownr repo)"

definition fetchFileContent :: "GitHub \<Rightarrow> string \<Rightarrow> string \<Rightarrow> string \<Rightarrow> string option" where
  "fetchFileContent gh ownr repo path =
     (case getContent gh (apiRepo ownr repo @ ''/contents/'' @ path) of
        None \<Rightarrow> None
      | Some d \<Rightarrow>
          (if truthy (cdContent d) \<and> cdEncoding d = Some ''base64''
           then atob gh (filter (\<lambda>c. c \<noteq> CHR 0x0A) (the (cdContent d)))
           else None))"

text \<open>\<open>path.split('/').pop() || ''\<close>: the part after the last slash.\<close>

definition lastSegment :: "string \<Rightarrow> string" where
  "lastSegment path = last (split (CHR ''/'') path)"

definition skipDirs :: "string list" where
  "skipDirs =
     [''node_modules'', ''.git'', ''dist'', ''build'', ''coverage'',
      ''.next'', ''.nuxt'', ''vendor'', ''__pycache__'', ''.venv'',
      ''target'', ''out'', ''.idea'', ''.vscode'', ''assets'', ''public/assets'']"

definition shouldSkipDirectory :: "string \<Rightarrow> bool" where
  "shouldSkipDirectory path =
     (let dirName = lastSegment path in dirName \<in> set skipDirs \<or> startsWith dirName ''.'')"

definition toFileNode :: "DirItem \<Rightarrow> FileNode" where
  "toFileNode item =
     \<lparr>fnPath = diPath item,
      fnType = (if diType item = ''dir'' then Dir else File),
      fnSize = diSize item\<rparr>"

text \<open>
  The recursion descends while \<open>depth \<le> maxDepth\<close>. The nodes of a listing come first,
  then the subtrees of its directories in the order of the listing, as \<open>Promise.all\<close>
  returns them.
\<close>

function fetchFileTree ::
  "GitHub \<Rightarrow> string \<Rightarrow> string \<Rightarrow> string \<Rightarrow> nat \<Rightarrow> nat \<Rightarrow> FileNode list" where
  "fetchFileTree gh ownr repo path depth maxDepth =
     (if depth > maxDepth then []
      else (case getListing gh (apiRepo ownr repo @ ''/contents/'' @ path) of
              None \<Rightarrow> []
            | Some data \<Rightarrow>
                map toFileNode data @
                concat (map (\<lambda>item. fetchFileTree gh ownr repo (diPath item) (depth + 1) maxDepth)
                          (filter (\<lambda>item. diType item = ''dir'' \<and> \<not> shouldSkipDirectory (diPath item))
                             data))))"
  by pat_completeness auto
termination
  by (relation "measure (\<lambda>(gh, ownr, repo, path, depth, maxDepth). Suc maxDepth - depth)") auto

declare fetchFileTree.simps [simp del]

definition toIssueInfo :: "RawIssue \<Rightarrow> IssueInfo" where
  "toIssueInfo issue =
     \<lparr>issNumber = rawNumber issue,
      issTitle = rawTitle issue,
      issBody = (if truthy (rawBody issue) then Some (truncateText (the (rawBody issue)) 500) else None),
      issState = rawState issue,
      issLabels = rawLabels issue,
      issAuthor = rawUserLogin issue,
      issCreatedAt = rawCreatedAt issue,
      issCommentsCount = rawComments issue,
      issUrl = rawHtmlUrl issue\<rparr>"

definition fetchIssues :: "GitHub \<Rightarrow> string \<Rightarrow> string \<Rightarrow> nat \<Rightarrow> IssueInfo list" where
  "fetchIssues gh ownr repo limit =
     (case getIssues gh (apiRepo ownr repo @ ''/issues?state=open&per_page='' @ showNat limit
                           @ ''&sort=updated'') of
        None \<Rightarrow> []
      | Some data \<Rightarrow> map toIssueInfo (filter (\<lambda>item. \<not> rawPullRequest item) data))"

definition toPRInfo :: "RawPull \<Rightarrow> PRInfo" where
  "toPRInfo pr =
     \<lparr>prNumber = pullNumber pr,
      prTitle = pullTitle pr,
      prBody = (if truthy (pullBody pr) then Some (truncateText (the (pullBody pr)) 300) else None),
      prState = pullState pr,
      prAuthor = pullUserLogin pr,
      prCreatedAt = pullCreatedAt pr,
      prUrl = pullHtmlUrl pr,
      prDraft = pullDraft pr\<rparr>"

definition fetchPullRequests :: "GitHub \<Rightarrow> string \<Rightarrow> string \<Rightarrow> nat \<Rightarrow> PRInfo list" where
  "fetchPullRequests gh ownr repo limit =
     (case getPulls gh (apiRepo ownr repo @ ''/pulls?state=open&per_page='' @ showNat limit
                          @ ''&sort=updated'') of
        None \<Rightarrow> []
      | Some data \<Rightarrow> map toPRInfo data)"

definition fetchLanguages :: "GitHub \<Rightarrow> string \<Rightarrow> string \<Rightarrow> (string \<times> int) list" where
  "fetchLanguages gh ownr repo =
     (case getLanguages gh (apiRepo ownr repo @ ''/languages'') of None \<Rightarrow> [] | Some data \<Rightarrow> data)"

section \<open>tools.ts: indexRepository\<close>

text \<open>
  \<open>clock\<close> is what \<open>new Date()\<close> reads when the snapshot is assembled, in milliseconds.
  The result is \<open>Inl\<close> where \<open>parseGitHubUrl\<close> throws, \<open>Inr None\<close> for \<open>null\<close>.
\<close>

definition indexRepository :: "GitHub \<Rightarrow> int \<Rightarrow> string \<Rightarrow> error + RepoIndex option" where
  "indexRepository gh clock url =
     (case parseGitHubUrl url of
        Inl e \<Rightarrow> Inl e
      | Inr (ownr, repo) \<Rightarrow>
          (let metadata = fetchRepoMetadata gh ownr repo;
               readmeText = fetchFileContent gh ownr repo ''README.md'';
               contributingText = fetchFileContent gh ownr repo ''CONTRIBUTING.md'';
               tree = fetchFileTree gh ownr repo [] 0 3;
               issueList = fetchIssues gh ownr repo 30;
               pulls = fetchPullRequests gh ownr repo 15;
               langs = fetchLanguages gh ownr repo
           in case metadata of
                None \<Rightarrow> Inr None
              | Some m \<Rightarrow>
                  Inr (Some
                    \<lparr>name = mdName m,
                     fullName = mdFullName m,
                     description = mdDescription m,
                     htmlUrl = mdHtmlUrl m,
                     defaultBranch = mdDefaultBranch m,
                     language = mdLanguage m,
                     topics = (case mdTopics m of None \<Rightarrow> [] | Some ts \<Rightarrow> ts),
                     stars = mdStargazersCount m,
                     forks = mdForks m,
                     openIssuesCount = mdOpenIssuesCount m,
                     readme = (if truthy readmeText then Some (truncateText (the readmeText) 8000)
                               else None),
                     contributing = (if truthy contributingText
                                     then Some (truncateText (the contributingText) 3000) else None),
                     fileTree = tree,
                     issues = issueList,
                     pullRequests = pulls,
                     indexedAt = clock,
                     languages = langs\<rparr>)))"

section \<open>tools.ts: fetchFilesContent\<close>

text \<open>
  \<open>results[path] = v\<close> on a record kept as the list of its entries: a key that is
  there keeps its place, a new key goes to the end. (A JavaScript object lists
  integer-like keys first and takes no entry for the key \<open>__proto__\<close>; what is proved
  below reads the entries as a mapping and does not turn on either.)
\<close>

fun setKey :: "string \<Rightarrow> string \<Rightarrow> (string \<times> string) list \<Rightarrow> (string \<times> string) list" where
  "setKey k v [] = [(k, v)]"
| "setKey k v ((k', v') # kvs) = (if k = k' then (k, v) # kvs else (k', v') # setKey k v kvs)"

text \<open>
  One callback of the \<open>map\<close> in \<open>fetchFilesContent\<close>: fetch a path and, if there is
  content, store it. The callbacks run in the order of the paths; the model takes their
  stores in that order too.
\<close>

definition fetchOne ::
  "GitHub \<Rightarrow> string \<Rightarrow> string \<Rightarrow> (string \<times> string) list \<Rightarrow> string \<Rightarrow> (string \<times> string) list" where
  "fetchOne gh ownr repo results path =
     (let content = fetchFileContent gh ownr repo path in
      if truthy content then setKey path (truncateText (the content) 6000) results else results)"

text \<open>
  The result comes with the paths \<open>fetchFileContent\<close> was called on, in the order of
  the calls. The stores happen as the fetches complete; the model takes them in the
  order of the paths.
\<close>

definition fetchFilesContent ::
  "GitHub \<Rightarrow> string \<Rightarrow> string \<Rightarrow> string list \<Rightarrow> (string \<times> string) list \<times> string list" where
  "fetchFilesContent gh ownr repo paths =
     (foldl (fetchOne gh ownr repo) [] (take 5 paths), take 5 paths)"

section \<open>tools.ts: buildContext\<close>

text \<open>
  The twenty-one patterns of \<open>isImportantFile\<close>, in the order of the source. A pattern
  with \<open>^\<close> only is a prefix test, one with \<open>$\<close> only a suffix test, one with both an
  equality, one with neither a substring test.
\<close>

definition oneOf :: "string \<Rightarrow> string \<Rightarrow> string list \<Rightarrow> bool" where
  "oneOf path stem exts = (path \<in> set (map (\<lambda>e. stem @ e) exts))"

definition isImportantFile :: "string \<Rightarrow> bool" where
  "isImportantFile path =
     (startsWith (toLowerCase path) ''readme''
      \<or> startsWith (toLowerCase path) ''contributing''
      \<or> startsWith (toLowerCase path) ''changelog''
      \<or> startsWith (toLowerCase path) ''license''
      \<or> endsWith path ''package.json''
      \<or> endsWith path ''tsconfig.json''
      \<or> (\<exists>e \<in> set [''js'', ''ts'', ''mjs'']. endsWith path (''.config.'' @ e))
      \<or> oneOf path ''src/index.'' [''ts'', ''js'', ''tsx'', ''jsx'']
      \<or> oneOf path ''src/main.'' [''ts'', ''js'', ''tsx'', ''jsx'']
      \<or> oneOf path ''src/app.'' [''ts'', ''js'', ''tsx'', ''jsx'']
      \<or> oneOf path ''index.'' [''ts'', ''js'', ''tsx'', ''jsx'']
      \<or> oneOf path ''main.'' [''ts'', ''js'', ''py'', ''go'', ''rs'']
      \<or> oneOf path ''app.'' [''ts'', ''js'', ''py'']
      \<or> endsWith path ''requirements.txt''
      \<or> endsWith path ''pyproject.toml''
      \<or> endsWith path ''Cargo.toml''
      \<or> endsWith path ''go.mod''
      \<or> endsWith path ''Makefile''
      \<or> endsWith path ''Dockerfile''
      \<or> includesStr path ''.github/workflows/''
      \<or> path = ''.env.example'')"

text \<open>
  The numbers of the percentage \<open>Math.round(bytes / totalBytes * 100)\<close>. A division by
  zero does not throw in JavaScript: it gives \<open>NaN\<close> or an infinity, which would be
  printed as such. The arithmetic of the finite values is exact here, where the source
  computes in double precision.
\<close>

datatype jsNumber = Finite rat | NaN | PosInfinity | NegInfinity

definition jsDiv :: "int \<Rightarrow> int \<Rightarrow> jsNumber" where
  "jsDiv a b =
     (if b = 0 then (if a = 0 then NaN else if a > 0 then PosInfinity else NegInfinity)
      else Finite (of_int a / of_int b))"

fun jsTimes :: "jsNumber \<Rightarrow> int \<Rightarrow> jsNumber" where
  "jsTimes (Finite r) k = Finite (r * of_int k)"
| "jsTimes x k = x"

fun mathRound :: "jsNumber \<Rightarrow> jsNumber" where
  "mathRound (Finite r) = Finite (of_int \<lfloor>r + 1 / 2\<rfloor>)"
| "mathRound x = x"

definition showInt :: "int \<Rightarrow> string" where
  "showInt i = (if i < 0 then ''-'' @ showNat (nat (- i)) else showNat (nat i))"

fun showNumber :: "jsNumber \<Rightarrow> string" where
  "showNumber (Finite r) = showInt \<lfloor>r\<rfloor>"
| "showNumber NaN = ''NaN''"
| "showNumber PosInfinity = ''Infinity''"
| "showNumber NegInfinity = ''-Infinity''"

definition percentage :: "int \<Rightarrow> int \<Rightarrow> jsNumber" where
  "percentage bytes totalBytes = mathRound (jsTimes (jsDiv bytes totalBytes) 100)"

text \<open>\<open>Object.values(index.languages).reduce((a, b) => a + b, 0)\<close>.\<close>

definition totalBytesOf :: "(string \<times> int) list \<Rightarrow> int" where
  "totalBytesOf langs = foldl (\<lambda>a b. a + b) 0 (map snd langs)"

text \<open>\<open>.sort((a, b) => b[1] - a[1])\<close>: a stable sort, largest first.\<close>

definition sortByBytesDesc :: "(string \<times> int) list \<Rightarrow> (string \<times> int) list" where
  "sortByBytesDesc langs = sort_key (\<lambda>e. - snd e) langs"

definition langEntry :: "int \<Rightarrow> string \<times> int \<Rightarrow> string" where
  "langEntry totalBytes e = fst e @ '' ('' @ showNumber (percentage (snd e) totalBytes) @ ''%)''"

definition langBreakdown :: "(string \<times> int) list \<Rightarrow> int \<Rightarrow> string" where
  "langBreakdown langs totalBytes =
     join '', '' (map (langEntry totalBytes) (take 5 (sortByBytesDesc langs)))"

text \<open>\<open>Array.from(new Set(xs))\<close>: the first occurrence of each element, in order.\<close>

definition uniqueInOrder :: "string list \<Rightarrow> string list" where
  "uniqueInOrder xs = rev (remdups (rev xs))"

text \<open>\<open>.replace(/\n/g, ' ')\<close>.\<close>

definition flattenNewlines :: "string \<Rightarrow> string" where
  "flattenNewlines s = map (\<lambda>c. if c = CHR 0x0A then CHR '' '' else c) s"

definition formatIssue :: "IssueInfo \<Rightarrow> string" where
  "formatIssue issue =
     (let labels = (if issLabels issue \<noteq> [] then '' ['' @ join '', '' (issLabels issue) @ '']'' else []);
          comments = (if issCommentsCount issue > 0
                      then '' ('' @ showNat (issCommentsCount issue) @ '' comments)'' else []);
          result = ''- [#'' @ showNat (issNumber issue) @ '']('' @ issUrl issue @ '') ''
                   @ issTitle issue @ labels @ comments
      in if truthy (issBody issue)
         then result @ ''\<newline>  > '' @ flattenNewlines (truncateText (the (issBody issue)) 150)
         else result)"

definition formatPR :: "PRInfo \<Rightarrow> string" where
  "formatPR pr =
     ''- [#'' @ showNat (prNumber pr) @ '']('' @ prUrl pr @ '') '' @ prTitle pr
     @ '' by @'' @ prAuthor pr @ (if prDraft pr then '' (draft)'' else [])"

text \<open>
  \<open>buildContext\<close> pushes strings on \<open>sections\<close> and joins them with line feeds. Each
  definition below is the list of strings pushed by one stretch of the function, in the
  order of the source.
\<close>

definition orElse :: "string option \<Rightarrow> string \<Rightarrow> string" where
  "orElse x d = (if truthy x then the x else d)"

definition headerSection :: "RepoIndex \<Rightarrow> string list" where
  "headerSection idx =
     [''## Repository: '' @ fullName idx,
      ''**Description:** '' @ orElse (description idx) ''No description'',
      ''**Primary Language:** '' @ orElse (language idx) ''Unknown'',
      ''**Stars:** '' @ showNat (stars idx) @ '' | **Forks:** '' @ showNat (forks idx)
        @ '' | **Open Issues:** '' @ showNat (openIssuesCount idx)]
     @ (if length (topics idx) > 0 then [''**Topics:** '' @ join '', '' (topics idx)] else [])"

definition languagesSection :: "RepoIndex \<Rightarrow> string list" where
  "languagesSection idx =
     (let totalBytes = totalBytesOf (languages idx) in
      if totalBytes > 0 then [''**Languages:** '' @ langBreakdown (languages idx) totalBytes]
      else [])"

definition importantFiles :: "RepoIndex \<Rightarrow> string list" where
  "importantFiles idx =
     map fnPath (take 30 (filter (\<lambda>f. isImportantFile (fnPath f))
                            (filter (\<lambda>f. fnType f = File) (fileTree idx))))"

definition topLevelDirs :: "RepoIndex \<Rightarrow> string list" where
  "topLevelDirs idx =
     uniqueInOrder (map (\<lambda>f. hd (split (CHR ''/'') (fnPath f)))
                      (filter (\<lambda>f. fnType f = Dir) (fileTree idx)))"

definition fileStructureSection :: "RepoIndex \<Rightarrow> string list" where
  "fileStructureSection idx =
     [''\<newline>## File Structure'']
     @ (if length (importantFiles idx) > 0
        then [''Key files:\<newline>'' @ join ''\<newline>'' (map (\<lambda>f. ''- '' @ f) (importantFiles idx))]
        else [])
     @ (if length (topLevelDirs idx) > 0
        then [''\<newline>Top-level directories: '' @ join '', '' (take 15 (topLevelDirs idx))]
        else [])"

definition readmeSection :: "RepoIndex \<Rightarrow> string list" where
  "readmeSection idx =
     (if truthy (readme idx)
      then [''\<newline>## README (excerpt)'', truncateText (the (readme idx)) 2000]
      else [])"

definition contributingSection :: "RepoIndex \<Rightarrow> string list" where
  "contributingSection idx =
     (if truthy (contributing idx)
      then [''\<newline>## Contributing Guidelines (excerpt)'', truncateText (the (contributing idx)) 1000]
      else [])"

definition hasLabelWith :: "string list \<Rightarrow> IssueInfo \<Rightarrow> bool" where
  "hasLabelWith words i =
     (\<exists>l \<in> set (issLabels i). \<exists>w \<in> set words. includesStr (toLowerCase l) w)"

definition issuesSection :: "RepoIndex \<Rightarrow> string list" where
  "issuesSection idx =
     (if length (issues idx) > 0 then
        (let goodFirstIssues = filter (hasLabelWith [''good first'', ''beginner'']) (issues idx);
             helpWanted = filter (hasLabelWith [''help wanted'']) (issues idx)
         in [''\<newline>## Open Issues'',
             ''(IMPORTANT: When mentioning ANY issue, use the markdown link format shown below with the exact URL)'']
            @ (if length goodFirstIssues > 0
               then ''\<newline>### Good First Issues'' # map formatIssue (take 5 goodFirstIssues) else [])
            @ (if length helpWanted > 0
               then ''\<newline>### Help Wanted'' # map formatIssue (take 5 helpWanted) else [])
            @ ''\<newline>### Recent Issues'' # map formatIssue (take 10 (issues idx)))
      else [])"

definition pullRequestsSection :: "RepoIndex \<Rightarrow> string list" where
  "pullRequestsSection idx =
     (if length (pullRequests idx) > 0
      then [''\<newline>## Open Pull Requests'', ''(Use these exact URLs when linking to PRs)'']
           @ map formatPR (take 5 (pullRequests idx))
      else [])"

definition fileBlock :: "string \<times> string \<Rightarrow> string list" where
  "fileBlock e =
     [''\<newline>### '' @ fst e, ''```'' @ last (split (CHR ''.'') (fst e)), snd e, ''```'']"

definition noFilesNote :: "string list" where
  "noFilesNote =
     [''\<newline>## Note: No file contents loaded'',
      ''To see actual code, the user should ask about specific files. Do NOT make up code.'']"

text \<open>The optional parameter \<open>additionalFiles\<close> is \<open>None\<close> where it is left out.\<close>

definition fileContentsSection :: "(string \<times> string) list option \<Rightarrow> string list" where
  "fileContentsSection additionalFiles =
     (case additionalFiles of
        None \<Rightarrow> noFilesNote
      | Some fs \<Rightarrow>
          (if length fs > 0
           then ''\<newline>## File Contents (ACTUAL CODE - you may quote this)'' # concat (map fileBlock fs)
           else noFilesNote))"

definition buildSections :: "RepoIndex \<Rightarrow> (string \<times> string) list option \<Rightarrow> string list" where
  "buildSections idx additionalFiles =
     headerSection idx @ languagesSection idx @ fileStructureSection idx @ readmeSection idx
     @ contributingSection idx @ issuesSection idx @ pullRequestsSection idx
     @ fileContentsSection additionalFiles"

definition buildContext :: "RepoIndex \<Rightarrow> (string \<times> string) list option \<Rightarrow> string" where
  "buildContext idx additionalFiles = join ''\<newline>'' (buildSections idx additionalFiles)"

section \<open>tools.ts: parseQueryAnalysis\<close>

text \<open>
  \<open>.replace(/```json\s*/gi, '')\<close> and \<open>.replace(/```\s*/g, '')\<close>: every match is cut
  out, from left to right, the search going on after the match.
\<close>

function removeJsonFences :: "string \<Rightarrow> string" where
  "removeJsonFences [] = []"
| "removeJsonFences (c # cs) =
     (if startsWith (toLowerCase (c # cs)) ''```json''
      then removeJsonFences (dropWhile isSpace (drop 7 (c # cs)))
      else c # removeJsonFences cs)"
  by pat_completeness auto
termination
  by (relation "measure length")
    (auto simp: less_Suc_eq_le intro!: order_trans [OF length_dropWhile_le])

function removeFences :: "string \<Rightarrow> string" where
  "removeFences [] = []"
| "removeFences (c # cs) =
     (if startsWith (c # cs) ''```''
      then removeFences (dropWhile isSpace (drop 3 (c # cs)))
      else c # removeFences cs)"
  by pat_completeness auto
termination
  by (relation "measure length")
    (auto simp: less_Suc_eq_le intro!: order_trans [OF length_dropWhile_le])

declare removeJsonFences.simps [simp del] removeFences.simps [simp del]

definition trim :: "string \<Rightarrow> string" where
  "trim s = rev (dropWhile isSpace (rev (dropWhile isSpace s)))"

text \<open>
  The values \<open>JSON.parse\<close> returns. An object is the list of its properties. A number
  is kept as a rational: only whether it is zero matters below.
\<close>

datatype json =
    JNull
  | JBool bool
  | JNumber rat
  | JString string
  | JArray "json list"
  | JObject "(string \<times> json) list"

text \<open>
  \<open>parsed.needsFiles\<close> and \<open>parsed.files\<close>: reading a property of \<open>null\<close> throws a
  \<open>TypeError\<close>; an object gives the property or \<open>undefined\<close> (\<open>None\<close>); a boolean,
  a number, a string and an array have neither of the two properties.
\<close>

fun getProperty :: "json \<Rightarrow> string \<Rightarrow> error + json option" where
  "getProperty JNull key = Inl TypeError"
| "getProperty (JObject props) key = Inr (map_of props key)"
| "getProperty v key = Inr None"

text \<open>\<open>Boolean(x)\<close>.\<close>

fun toBoolean :: "json option \<Rightarrow> bool" where
  "toBoolean None = False"
| "toBoolean (Some JNull) = False"
| "toBoolean (Some (JBool b)) = b"
| "toBoolean (Some (JNumber r)) = (r \<noteq> 0)"
| "toBoolean (Some (JString s)) = (s \<noteq> [])"
| "toBoolean (Some (JArray xs)) = True"
| "toBoolean (Some (JObject props)) = True"

text \<open>\<open>Array.isArray(parsed.files) ? parsed.files : []\<close>.\<close>

fun arrayOrEmpty :: "json option \<Rightarrow> json list" where
  "arrayOrEmpty (Some (JArray xs)) = xs"
| "arrayOrEmpty v = []"

text \<open>
  The decision of the router. \<open>files\<close> is declared \<open>string[]\<close>, but holds whatever the
  array of the parsed response holds.
\<close>

record QueryDecision =
  needsFiles :: bool
  files :: "json list"

definition noFilesNeeded :: QueryDecision where
  "noFilesNeeded = \<lparr>needsFiles = False, files = []\<rparr>"

text \<open>
  \<open>jsonParse\<close> is the runtime's \<open>JSON.parse\<close>, \<open>None\<close> where it throws a
  \<open>SyntaxError\<close>. The \<open>catch\<close> takes that exception and the \<open>TypeError\<close> alike.
\<close>

definition parseQueryAnalysis :: "(string \<Rightarrow> json option) \<Rightarrow> string \<Rightarrow> QueryDecision" where
  "parseQueryAnalysis jsonParse response =
     (let cleaned = trim (removeFences (removeJsonFences response)) in
      case jsonParse cleaned of
        None \<Rightarrow> noFilesNeeded
      | Some parsed \<Rightarrow>
          (case getProperty parsed ''needsFiles'' of
             Inl e \<Rightarrow> noFilesNeeded
           | Inr nf \<Rightarrow>
               (case getProperty parsed ''files'' of
                  Inl e \<Rightarrow> noFilesNeeded
                | Inr fs \<Rightarrow> \<lparr>needsFiles = toBoolean nf, files = arrayOrEmpty fs\<rparr>)))"

section \<open>utils.ts: the environment and the prompts\<close>

text \<open>
  What \<open>env.AI.run\<close> may return: a string, an object (with its \<open>response\<close> property
  if that is a string), or anything else.
\<close>

datatype aiResponse = ResponseString string | ResponseObject "string option" | ResponseOther

text \<open>
  The key/value store holds, for a key, the stored snapshot and the time in milliseconds
  at which the store drops it. The snapshot stands for its JSON text, which
  \<open>getRepoIndex\<close> parses back.
\<close>

type_synonym kvStore = "string \<Rightarrow> (RepoIndex \<times> int) option"

text \<open>
  \<open>AI\<close> takes the messages (role and content) and \<open>max_tokens\<close> of a call to the one
  model the worker uses, and is \<open>None\<close> where the call throws.
\<close>

record Env =
  AI :: "(string \<times> string) list \<Rightarrow> nat \<Rightarrow> aiResponse option"
  CACHE_KV :: kvStore
  GITHUB_PAT :: string

definition createHeaders :: "Env \<Rightarrow> error + (string \<times> string) list" where
  "createHeaders env =
     (if GITHUB_PAT env = [] then Inl MissingPat
      else Inr [(''User-Agent'', ''GitHubContributionAssistant''),
                (''X-Github-Api-Version'', ''2022-11-28''),
                (''Authorization'', ''Bearer '' @ GITHUB_PAT env)])"

definition SYSTEM_PROMPT :: string where
  \<open>SYSTEM_PROMPT = join ''\<newline>''
    [''You are an expert GitHub Contribution Assistant. Your role is to help developers understand repositories and find meaningful ways to contribute.'',
     [],
     ''CRITICAL RULES:'',
     [],
     ''1. **ONLY use information provided in the context** - NEVER hallucinate or make up code, file contents, or issue details'',
     ''2. **If you don't have actual code for a file, say so** - Don't invent code snippets'',
     ''3. **Always link issues and PRs** - When mentioning any issue or PR, ALWAYS include the full URL in markdown link format: [#123](https://github.com/owner/repo/issues/123)'',
     ''4. **Use exact data from context** - Issue titles, numbers, labels, and URLs are provided - use them exactly'',
     [],
     ''Response Format:'',
     ''- Use clear section headers (##) to organize your response'',
     ''- When mentioning issues: ALWAYS link them as [#NUMBER](URL) using the URL from the context'',
     ''- When mentioning PRs: ALWAYS link them as [#NUMBER](URL) using the URL from the context'',
     ''- Only show code snippets if actual file contents are provided in the "File Contents" section'',
     ''- If asked about code but no file contents are provided, explain what files would be relevant and suggest which ones to look at'',
     ''- Reference file paths using inline code: `src/file.ts`'',
     ''- Keep paragraphs short (2-3 sentences max)'',
     [],
     ''What you CAN do:'',
     ''- Describe the project structure based on the file tree'',
     ''- List and link to actual issues with their real titles and labels'',
     ''- Explain what the README says (if provided)'',
     ''- Suggest which files might be relevant based on names/paths'',
     ''- Quote actual code from the "File Contents" section if provided'',
     [],
     ''What you CANNOT do:'',
     ''- Make up or guess code contents'',
     ''- Invent issue numbers or details not in the context'',
     ''- Hallucinate file contents or structure'']\<close>

definition QUERY_ANALYZER_PROMPT :: string where
  \<open>QUERY_ANALYZER_PROMPT = join ''\<newline>''
    [''You are analyzing a user's question to determine which source files to fetch.'',
     [],
     ''Respond with JSON only:'',
     ''{'',
     ''  "needsFiles": true,'',
     ''  "files": ["path/to/file1.ts", "path/to/file2.ts"],'',
     ''  "reasoning": "brief explanation"'',
     ''}'',
     [],
     ''File Selection Priority:'',
     ''1. Entry points: index.ts, main.ts, app.ts, index.js, main.py, etc.'',
     ''2. Config files: package.json, tsconfig.json, Cargo.toml, pyproject.toml'',
     ''3. Core source files in src/ or lib/ directories'',
     ''4. Files mentioned or implied in the question'',
     [],
     ''Rules:'',
     ''- Select 3-5 most relevant files'',
     ''- Prefer smaller, focused files over large ones'',
     ''- For "architecture" questions: get entry points + key config files'',
     ''- For "how does X work": get files likely to contain X'',
     ''- ALWAYS include at least one source code file for code questions'']\<close>

section \<open>index.ts: the calls a handler makes\<close>

text \<open>
  The calls to the outside that the claims count, in the order in which a handler makes
  them: a read and a write of the store (the write with its \<open>expirationTtl\<close> in
  seconds), a call of \<open>indexRepository\<close>, a call of \<open>env.AI.run\<close> with its messages
  and \<open>max_tokens\<close>, and a call of \<open>fetchFileContent\<close> made by \<open>fetchFilesContent\<close>.
\<close>

datatype call =
    KvGet string
  | KvPut string int
  | IndexRepository string
  | AiRun "(string \<times> string) list" nat
  | FetchFile string

section \<open>index.ts: the cache\<close>

text \<open>
  \<open>CACHE_KV.get\<close> at a given time: the store returns a value it has not dropped yet.
  \<open>CACHE_KV.put\<close> with \<open>expirationTtl\<close>: the value is kept for that many seconds
  from the time of the write.
\<close>

definition kvGet :: "kvStore \<Rightarrow> int \<Rightarrow> string \<Rightarrow> RepoIndex option" where
  "kvGet kv clock key =
     (case kv key of
        None \<Rightarrow> None
      | Some (v, expires) \<Rightarrow> if clock < expires then Some v else None)"

definition kvPut :: "kvStore \<Rightarrow> int \<Rightarrow> string \<Rightarrow> RepoIndex \<Rightarrow> int \<Rightarrow> kvStore" where
  "kvPut kv clock key v ttl = kv(key \<mapsto> (v, clock + ttl * 1000))"

definition cacheKey :: "string \<Rightarrow> string" where
  "cacheKey url = ''repo:'' @ url"

definition getRepoIndex :: "Env \<Rightarrow> int \<Rightarrow> string \<Rightarrow> RepoIndex option" where
  "getRepoIndex env clock url = kvGet (CACHE_KV env) clock (cacheKey url)"

text \<open>
  The clock readings of one request, in milliseconds: when the store is read (which is
  also \<open>Date.now()\<close> in \<open>handleRepoIndexing\<close>), when \<open>indexRepository\<close> stamps the
  snapshot, and when the store takes the write.
\<close>

record Clock =
  atRequest :: int
  atBuild :: int
  atPut :: int

text \<open>What lies outside the worker: GitHub and the runtime's \<open>JSON.parse\<close>.\<close>

record Outside =
  github :: GitHub
  jsonParse :: "string \<Rightarrow> json option"

section \<open>index.ts: analyzeQuery\<close>

text \<open>
  \<open>anywhere P s\<close>: some suffix of \<open>s\<close> satisfies \<open>P\<close>, which is how an unanchored
  pattern is found. \<open>dotStarThen s ws\<close>: \<open>s\<close> matches \<open>.*(w1|w2|...)\<close> from its start,
  where \<open>.\<close> takes no line terminator. \<open>dotPlusBetween a b s\<close>: \<open>s\<close> matches
  \<open>a.+b\<close> from its start. All of them run on the lower-cased question, for the \<open>i\<close>
  flag.
\<close>

fun anywhere :: "(string \<Rightarrow> bool) \<Rightarrow> string \<Rightarrow> bool" where
  "anywhere P [] = P []"
| "anywhere P (c # cs) = (P (c # cs) \<or> anywhere P cs)"

fun dotStarThen :: "string \<Rightarrow> string list \<Rightarrow> bool" where
  "dotStarThen [] ws = (\<exists>w \<in> set ws. startsWith [] w)"
| "dotStarThen (c # cs) ws =
     ((\<exists>w \<in> set ws. startsWith (c # cs) w) \<or> (\<not> isLineTerminator c \<and> dotStarThen cs ws))"

definition dotPlusBetween :: "string \<Rightarrow> string \<Rightarrow> string \<Rightarrow> bool" where
  "dotPlusBetween a b s =
     (startsWith s a \<and>
      (case drop (length a) s of
         [] \<Rightarrow> False
       | c # r \<Rightarrow> \<not> isLineTerminator c \<and> dotStarThen r [b]))"

definition issueOnlyPatterns :: "(string \<Rightarrow> bool) list" where
  "issueOnlyPatterns =
     [\<lambda>q. \<exists>verb \<in> set [''find'', ''list'', ''show''].
            startsWith q verb \<and>
            dotStarThen (drop (length verb) q) [''issue'', ''bug'', ''pr'', ''pull request''],
      \<lambda>q. includesStr q ''good first issue'',
      \<lambda>q. includesStr q ''help wanted'',
      \<lambda>q. \<exists>mid \<in> set [''do i'', ''can i'', ''to'']. includesStr q (''how '' @ mid @ '' contribute''),
      \<lambda>q. includesStr q ''contribution guide'']"

definition needsCodePatterns :: "(string \<Rightarrow> bool) list" where
  "needsCodePatterns =
     [\<lambda>q. includesStr q ''architect'',
      \<lambda>q. includesStr q ''structure'',
      \<lambda>q. anywhere (dotPlusBetween ''how does '' '' work'') q,
      \<lambda>q. includesStr q ''explain'',
      \<lambda>q. includesStr q ''code'',
      \<lambda>q. includesStr q ''implementation'',
      \<lambda>q. includesStr q ''where is'',
      \<lambda>q. includesStr q ''show me'',
      \<lambda>q. anywhere (dotPlusBetween ''what does '' '' do'') q,
      \<lambda>q. includesStr q ''entry point'',
      \<lambda>q. includesStr q ''main file'',
      \<lambda>q. includesStr q ''config'',
      \<lambda>q. includesStr q ''setup'',
      \<lambda>q. includesStr q ''snippet'']"

text \<open>\<open>patterns.some(p => p.test(question))\<close>.\<close>

definition someTest :: "(string \<Rightarrow> bool) list \<Rightarrow> string \<Rightarrow> bool" where
  "someTest patterns question = (\<exists>p \<in> set patterns. p (toLowerCase question))"

definition extractResponseText :: "aiResponse \<Rightarrow> string" where
  "extractResponseText response =
     (case response of
        ResponseString s \<Rightarrow> s
      | ResponseObject (Some s) \<Rightarrow> s
      | ResponseObject None \<Rightarrow> []
      | ResponseOther \<Rightarrow> [])"

definition candidateFiles :: "RepoIndex \<Rightarrow> string list" where
  "candidateFiles idx = take 100 (map fnPath (filter (\<lambda>f. fnType f = File) (fileTree idx)))"

definition routingPrompt :: "string \<Rightarrow> RepoIndex \<Rightarrow> string" where
  "routingPrompt question idx =
     ''Question: '' @ question @ ''\<newline>\<newline>Available files:\<newline>''
     @ join ''\<newline>'' (candidateFiles idx) @ ''\<newline>\<newline>'' @ QUERY_ANALYZER_PROMPT"

text \<open>The decision, and the calls made to reach it.\<close>

definition analyzeQuery ::
  "Outside \<Rightarrow> Env \<Rightarrow> string \<Rightarrow> RepoIndex \<Rightarrow> QueryDecision \<times> call list" where
  "analyzeQuery out env question idx =
     (if someTest issueOnlyPatterns question then (noFilesNeeded, [])
      else if \<not> someTest needsCodePatterns question then (noFilesNeeded, [])
      else
        (let messages = [(''user'', routingPrompt question idx)] in
         case AI env messages 256 of
           None \<Rightarrow> (noFilesNeeded, [AiRun messages 256])
         | Some response \<Rightarrow>
             (parseQueryAnalysis (jsonParse out) (extractResponseText response),
              [AiRun messages 256])))"

section \<open>index.ts: generateAnswer\<close>

definition generateAnswer :: "Env \<Rightarrow> string \<Rightarrow> string \<Rightarrow> string \<times> call list" where
  "generateAnswer env question context =
     (let userMessage =
            context @ ''\<newline>\<newline>---\<newline>\<newline>**User Question:** '' @ question
            @ ''\<newline>\<newline>Please provide a helpful, well-structured response. Use markdown formatting appropriately.'';
          messages = [(''system'', SYSTEM_PROMPT), (''user'', userMessage)]
      in case AI env messages 2048 of
           None \<Rightarrow>
             (''An error occurred while generating the response. Please try again.'',
              [AiRun messages 2048])
         | Some response \<Rightarrow>
             (if extractResponseText response \<noteq> [] then extractResponseText response
              else ''I apologize, but I couldn't generate a response. Please try rephrasing your question.'',
              [AiRun messages 2048]))"

section \<open>index.ts: handleRepoIndexing\<close>

record RepoStats =
  stName :: string
  stFullName :: string
  stDescription :: "string option"
  stLanguage :: "string option"
  stStars :: nat
  stForks :: nat
  stOpenIssues :: nat
  stFilesIndexed :: nat
  stRecentIssuesLoaded :: nat
  stRecentPRsLoaded :: nat
  stGoodFirstIssues :: "nat option"
  stHelpWantedIssues :: "nat option"
  stHasReadme :: bool
  stHasContributing :: bool
  stCached :: bool
  stIndexedAt :: int

record IndexReply =
  success :: bool
  message :: string
  stats :: "RepoStats option"

definition positiveOrNull :: "nat \<Rightarrow> nat option" where
  "positiveOrNull n = (if n > 0 then Some n else None)"

definition statsOf :: "RepoIndex \<Rightarrow> bool \<Rightarrow> RepoStats" where
  "statsOf idx cached =
     \<lparr>stName = name idx,
      stFullName = fullName idx,
      stDescription = description idx,
      stLanguage = language idx,
      stStars = stars idx,
      stForks = forks idx,
      stOpenIssues = openIssuesCount idx,
      stFilesIndexed = length (fileTree idx),
      stRecentIssuesLoaded = length (issues idx),
      stRecentPRsLoaded = length (pullRequests idx),
      stGoodFirstIssues = positiveOrNull (length (filter (hasLabelWith [''good first'']) (issues idx))),
      stHelpWantedIssues = positiveOrNull (length (filter (hasLabelWith [''help wanted'']) (issues idx))),
      stHasReadme = truthy (readme idx),
      stHasContributing = truthy (contributing idx),
      stCached = cached,
      stIndexedAt = indexedAt idx\<rparr>"

text \<open>\<open>age = (now - indexedTime) / 1000\<close> and the test \<open>age < CACHE_TTL\<close>.\<close>

definition ageSeconds :: "int \<Rightarrow> RepoIndex \<Rightarrow> rat" where
  "ageSeconds now existing = of_int (now - indexedAt existing) / 1000"

definition fresh :: "int \<Rightarrow> RepoIndex \<Rightarrow> bool" where
  "fresh now existing = (ageSeconds now existing < of_int CACHE_TTL)"

text \<open>
  A handler gives its reply (\<open>Inl\<close> where it throws), the store as it leaves it, and
  the calls it made. The request body of \<open>handleRepoIndexing\<close> is its \<open>url\<close>.
\<close>

definition handleRepoIndexing ::
  "Outside \<Rightarrow> Env \<Rightarrow> Clock \<Rightarrow> string \<Rightarrow> (error + IndexReply) \<times> kvStore \<times> call list" where
  "handleRepoIndexing out env clk url =
     (let key = cacheKey url;
          existing = getRepoIndex env (atRequest clk) url
      in if (case existing of None \<Rightarrow> False | Some ex \<Rightarrow> fresh (atRequest clk) ex)
         then (Inr \<lparr>success = True, message = ''Repository already indexed'',
                    stats = Some (statsOf (the existing) True)\<rparr>,
               CACHE_KV env, [KvGet key])
         else
           (case createHeaders env of
              Inl e \<Rightarrow> (Inl e, CACHE_KV env, [KvGet key])
            | Inr headers \<Rightarrow>
                (case indexRepository (github out) (atBuild clk) url of
                   Inl e \<Rightarrow> (Inl e, CACHE_KV env, [KvGet key, IndexRepository url])
                 | Inr None \<Rightarrow>
                     (Inr \<lparr>success = False,
                           message = ''Failed to index repository. Check if the URL is correct and the repository is public.'',
                           stats = None\<rparr>,
                      CACHE_KV env, [KvGet key, IndexRepository url])
                 | Inr (Some idx) \<Rightarrow>
                     (Inr \<lparr>success = True, message = ''Repository indexed successfully'',
                           stats = Some (statsOf idx False)\<rparr>,
                      kvPut (CACHE_KV env) (atPut clk) key idx CACHE_TTL,
                      [KvGet key, IndexRepository url, KvPut key CACHE_TTL]))))"

section \<open>index.ts: handleQuestion\<close>

datatype stepStatus = Done | Working

record ThinkingStep =
  step :: string
  detail :: string
  status :: stepStatus

definition doneStep :: "string \<Rightarrow> string \<Rightarrow> ThinkingStep" where
  "doneStep s d = \<lparr>step = s, detail = d, status = Done\<rparr>"

record Debug =
  filesInIndex :: nat
  issuesInIndex :: nat
  additionalFilesFetched :: nat
  contextLength :: nat

record QuestionReply =
  answer :: string
  thinking :: "ThinkingStep list"
  debug :: "Debug option"

text \<open>
  \<open>files.map(f => f.split('/').pop())\<close>: an element that is not a string has no
  \<open>split\<close>, and the call throws a \<open>TypeError\<close>.
\<close>

fun asStrings :: "json list \<Rightarrow> error + string list" where
  "asStrings [] = Inr []"
| "asStrings (JString s # vs) = (case asStrings vs of Inl e \<Rightarrow> Inl e | Inr ss \<Rightarrow> Inr (s # ss))"
| "asStrings (v # vs) = Inl TypeError"

text \<open>The end of \<open>handleQuestion\<close>, from the step \<open>Building context\<close> on.\<close>

definition finishAnswer ::
  "Env \<Rightarrow> string \<Rightarrow> RepoIndex \<Rightarrow> (string \<times> string) list \<Rightarrow> ThinkingStep list \<Rightarrow>
   QuestionReply \<times> call list" where
  "finishAnswer env question idx additionalFiles steps =
     (let steps1 = steps @ [doneStep ''Building context'' ''Preparing repository context for analysis''];
          context = buildContext idx (Some additionalFiles);
          steps2 = steps1 @ [doneStep ''Generating response'' ''Analyzing with AI''];
          (text, calls) = generateAnswer env question context
      in (\<lparr>answer = text, thinking = steps2,
           debug = Some \<lparr>filesInIndex = length (fileTree idx),
                         issuesInIndex = length (issues idx),
                         additionalFilesFetched = length additionalFiles,
                         contextLength = length context\<rparr>\<rparr>,
          calls))"

text \<open>
  \<open>handleQuestion\<close> once the snapshot is there, from the step \<open>Repository loaded\<close> on.
  The store is not touched any more.
\<close>

definition answerWithIndex ::
  "Outside \<Rightarrow> Env \<Rightarrow> string \<Rightarrow> string \<Rightarrow> RepoIndex \<Rightarrow> ThinkingStep list \<Rightarrow>
   (error + QuestionReply) \<times> call list" where
  "answerWithIndex out env url question idx steps =
     (let steps1 = steps @ [doneStep ''Repository loaded''
                              (showNat (length (fileTree idx)) @ '' files, ''
                               @ showNat (length (issues idx)) @ '' issues indexed'')]
      in case parseGitHubUrl url of
           Inl e \<Rightarrow> (Inl e, [])
         | Inr (ownr, repo) \<Rightarrow>
             (let steps2 = steps1 @ [doneStep ''Analyzing question'' ''Determining what data is needed''];
                  (shouldFetchFiles, routing) = analyzeQuery out env question idx
              in if needsFiles shouldFetchFiles \<and> length (files shouldFetchFiles) > 0 then
                   (case asStrings (files shouldFetchFiles) of
                      Inl e \<Rightarrow> (Inl e, routing)
                    | Inr paths \<Rightarrow>
                        (let steps3 = steps2 @ [doneStep ''Fetching source files''
                                                  (join '', '' (map lastSegment paths))]
                         in case createHeaders env of
                              Inl e \<Rightarrow> (Inl e, routing)
                            | Inr headers \<Rightarrow>
                                (let (additionalFiles, attempted) =
                                       fetchFilesContent (github out) ownr repo paths;
                                     fetchedFiles = map fst additionalFiles;
                                     steps4 = steps3 @
                                       (if length fetchedFiles > 0
                                        then [doneStep ''Files loaded''
                                                (join '', '' (map (\<lambda>f. ''`'' @ f @ ''`'') fetchedFiles))]
                                        else []);
                                     (reply, calls) = finishAnswer env question idx additionalFiles steps4
                                 in (Inr reply, routing @ map FetchFile attempted @ calls))))
                 else
                   (let steps3 = steps2 @ [doneStep ''Using indexed data''
                                             ''No additional file fetching needed''];
                        (reply, calls) = finishAnswer env question idx [] steps3
                    in (Inr reply, routing @ calls))))"

definition accessFailure :: QuestionReply where
  "accessFailure =
     \<lparr>answer = ''I couldn't access this repository. Please make sure the URL is correct and the repository is public, then try indexing it again.'',
      thinking = [doneStep ''Error'' ''Failed to access repository''],
      debug = None\<rparr>"

definition handleQuestion ::
  "Outside \<Rightarrow> Env \<Rightarrow> Clock \<Rightarrow> string \<Rightarrow> string \<Rightarrow> (error + QuestionReply) \<times> kvStore \<times> call list" where
  "handleQuestion out env clk url question =
     (let key = cacheKey url;
          steps = [doneStep ''Loading repository data'' ''Checking cached index'']
      in case getRepoIndex env (atRequest clk) url of
           Some idx \<Rightarrow>
             (let (reply, calls) = answerWithIndex out env url question idx steps
              in (reply, CACHE_KV env, KvGet key # calls))
         | None \<Rightarrow>
             (let steps1 = steps @ [doneStep ''Rebuilding index'' ''Cache expired, fetching fresh data'']
              in case createHeaders env of
                   Inl e \<Rightarrow> (Inl e, CACHE_KV env, [KvGet key])
                 | Inr headers \<Rightarrow>
                     (case indexRepository (github out) (atBuild clk) url of
                        Inl e \<Rightarrow> (Inl e, CACHE_KV env, [KvGet key, IndexRepository url])
                      | Inr None \<Rightarrow>
                          (Inr accessFailure, CACHE_KV env, [KvGet key, IndexRepository url])
                      | Inr (Some idx) \<Rightarrow>
                          (let (reply, calls) = answerWithIndex out env url question idx steps1
                           in (reply,
                               kvPut (CACHE_KV env) (atPut clk) key idx CACHE_TTL,
                               [KvGet key, IndexRepository url, KvPut key CACHE_TTL] @ calls)))))"

section \<open>Concrete inputs\<close>

definition sampleMetadata :: RepoMetadata where
  "sampleMetadata =
     \<lparr>mdName = ''hello'', mdFullName = ''octo/hello'', mdDescription = None,
      mdHtmlUrl = ''https://github.com/octo/hello'', mdDefaultBranch = ''main'',
      mdLanguage = Some ''TypeScript'', mdTopics = None,
      mdStargazersCount = 100, mdForks = 2, mdOpenIssuesCount = 3\<rparr>"

definition sampleRawIssue :: RawIssue where
  "sampleRawIssue =
     \<lparr>rawNumber = 7, rawTitle = ''Fix the docs'', rawBody = Some (replicate 501 (CHR ''b'')),
      rawState = ''open'', rawLabels = [''good first issue''], rawUserLogin = ''mona'',
      rawCreatedAt = ''2024-01-01T00:00:00Z'', rawComments = 0,
      rawHtmlUrl = ''https://github.com/octo/hello/issues/7'', rawPullRequest = False\<rparr>"

text \<open>
  A repository \<open>octo/hello\<close> whose README is 8001 letters \<open>a\<close> (2667 times the base64
  group \<open>YWFh\<close>, which decodes to \<open>aaa\<close>) and which has one open issue with a body of
  501 characters. \<open>atob\<close> is given on that one content, the only one that reaches it.
\<close>

definition sampleGitHub :: GitHub where
  "sampleGitHub =
     \<lparr>getMetadata = (\<lambda>u. if u = ''https://api.github.com/repos/octo/hello''
                          then Some sampleMetadata else None),
      getContent = (\<lambda>u. if u = ''https://api.github.com/repos/octo/hello/contents/README.md''
                         then Some \<lparr>cdContent = Some (concat (replicate 2667 ''YWFh'')),
                                    cdEncoding = Some ''base64''\<rparr>
                         else None),
      getListing = (\<lambda>u. None),
      getIssues = (\<lambda>u. if u = ''https://api.github.com/repos/octo/hello/issues?state=open&per_page=30&sort=updated''
                        then Some [sampleRawIssue] else None),
      getPulls = (\<lambda>u. None),
      getLanguages = (\<lambda>u. None),
      atob = (\<lambda>s. if s = concat (replicate 2667 ''YWFh'') then Some (replicate 8001 (CHR ''a''))
                   else None)\<rparr>"

text \<open>The snapshot that \<open>indexRepository\<close> builds of it at time 0.\<close>

definition sampleIndex :: RepoIndex where
  "sampleIndex =
     \<lparr>name = ''hello'', fullName = ''octo/hello'', description = None,
      htmlUrl = ''https://github.com/octo/hello'', defaultBranch = ''main'',
      language = Some ''TypeScript'', topics = [], stars = 100, forks = 2, openIssuesCount = 3,
      readme = Some (replicate 8000 (CHR ''a'') @ ''...''), contributing = None,
      fileTree = [],
      issues = [\<lparr>issNumber = 7, issTitle = ''Fix the docs'',
                 issBody = Some (replicate 500 (CHR ''b'') @ ''...''),
                 issState = ''open'', issLabels = [''good first issue''], issAuthor = ''mona'',
                 issCreatedAt = ''2024-01-01T00:00:00Z'', issCommentsCount = 0,
                 issUrl = ''https://github.com/octo/hello/issues/7''\<rparr>],
      pullRequests = [], indexedAt = 0, languages = []\<rparr>"

text \<open>
  \<open>JSON.parse\<close> on the texts that the examples below hand to it: four JSON texts,
  each with the value it denotes, and \<open>None\<close> for the one other text parsed below,
  which is not JSON.
\<close>

definition sampleJsonParse :: "string \<Rightarrow> json option" where
  \<open>sampleJsonParse s =
     (if s = ''{"needsFiles":"no","files":"none"}''
      then Some (JObject [(''needsFiles'', JString ''no''), (''files'', JString ''none'')])
      else if s = ''{"needsFiles":true,"files":["README.md","src/index.ts"]}''
      then Some (JObject [(''needsFiles'', JBool True),
                          (''files'', JArray [JString ''README.md'', JString ''src/index.ts''])])
      else if s = ''{"needsFiles":true,"files":["a.ts",7]}''
      then Some (JObject [(''needsFiles'', JBool True),
                          (''files'', JArray [JString ''a.ts'', JNumber 7])])
      else if s = ''null'' then Some JNull
      else None)\<close>

definition sampleOutside :: Outside where
  "sampleOutside = \<lparr>github = sampleGitHub, jsonParse = sampleJsonParse\<rparr>"

text \<open>
  An environment with a token, an empty store, and a model that answers every call with
  the same fenced JSON text.
\<close>

definition sampleEnv :: Env where
  \<open>sampleEnv =
     \<lparr>AI = (\<lambda>messages maxTokens.
              Some (ResponseObject
                      (Some ''```json\<newline>{"needsFiles":true,"files":["README.md","src/index.ts"]}\<newline>```''))),
      CACHE_KV = (\<lambda>key. None),
      GITHUB_PAT = ''token''\<rparr>\<close>

text \<open>A GitHub that answers no request, so that no content reaches \<open>atob\<close>.\<close>

definition unreachableGitHub :: GitHub where
  "unreachableGitHub =
     \<lparr>getMetadata = (\<lambda>u. None), getContent = (\<lambda>u. None), getListing = (\<lambda>u. None),
      getIssues = (\<lambda>u. None), getPulls = (\<lambda>u. None), getLanguages = (\<lambda>u. None),
      atob = (\<lambda>s. None)\<rparr>"

text \<open>
  The sample environment after the snapshot built at time 0 was written to the store
  two seconds later.
\<close>

definition cachedEnv :: Env where
  "cachedEnv =
     sampleEnv\<lparr>CACHE_KV := kvPut (\<lambda>key. None) 2000 (cacheKey ''github.com/octo/hello'')
                              sampleIndex CACHE_TTL\<rparr>"

text \<open>
  The same environment with a model that names two files, the second of them the number
  7 instead of a path.
\<close>

definition mixedFilesEnv :: Env where
  \<open>mixedFilesEnv =
     cachedEnv\<lparr>AI := (\<lambda>messages maxTokens.
                       Some (ResponseObject (Some ''{"needsFiles":true,"files":["a.ts",7]}'')))\<rparr>\<close>

section \<open>Facts about strings\<close>

lemma startsWith_iff: "startsWith s p \<longleftrightarrow> (\<exists>r. s = p @ r)"
  by (induction s p rule: startsWith.induct) auto

lemma startsWith_append [simp]: "startsWith (p @ r) p"
  by (simp add: startsWith_iff)

lemma startsWith_drop: "startsWith s p \<Longrightarrow> s = p @ drop (length p) s"
  by (auto simp: startsWith_iff)

lemma endsWith_iff: "endsWith s p \<longleftrightarrow> (\<exists>r. s = r @ p)"
proof -
  have "endsWith s p \<longleftrightarrow> (\<exists>r. rev s = rev p @ r)"
    by (simp add: endsWith_def startsWith_iff)
  also have "\<dots> \<longleftrightarrow> (\<exists>r. s = r @ p)"
  proof
    assume "\<exists>r. rev s = rev p @ r"
    then obtain r where "rev s = rev p @ r" ..
    then have "s = rev r @ p" by (metis rev_append rev_rev_ident)
    then show "\<exists>r. s = r @ p" ..
  next
    assume "\<exists>r. s = r @ p"
    then obtain r where "s = r @ p" ..
    then have "rev s = rev p @ rev r" by simp
    then show "\<exists>r. rev s = rev p @ r" ..
  qed
  finally show ?thesis .
qed

lemma includesStr_iff: "includesStr s p \<longleftrightarrow> (\<exists>a b. s = a @ p @ b)"
proof (induction s)
  case Nil
  show ?case by (auto simp: startsWith_iff)
next
  case (Cons c cs)
  show ?case
  proof
    assume "includesStr (c # cs) p"
    then consider "startsWith (c # cs) p" | "includesStr cs p" by auto
    then show "\<exists>a b. c # cs = a @ p @ b"
    proof cases
      case 1
      then obtain r where "c # cs = p @ r" by (auto simp: startsWith_iff)
      then have "c # cs = [] @ p @ r" by simp
      then show ?thesis by blast
    next
      case 2
      with Cons.IH obtain a b where "cs = a @ p @ b" by blast
      then have "c # cs = (c # a) @ p @ b" by simp
      then show ?thesis by blast
    qed
  next
    assume "\<exists>a b. c # cs = a @ p @ b"
    then obtain a b where ab: "c # cs = a @ p @ b" by blast
    show "includesStr (c # cs) p"
    proof (cases a)
      case Nil
      with ab have "startsWith (c # cs) p" by (auto simp: startsWith_iff)
      then show ?thesis by simp
    next
      case (Cons x a')
      with ab have "cs = a' @ p @ b" by simp
      with Cons.IH show ?thesis by auto
    qed
  qed
qed

lemma matchCore_path:
  assumes "ownr \<noteq> []" "CHR ''/'' \<notin> set ownr" "repoChar c"
  shows "matchCore (''github.com/'' @ ownr @ ''/'' @ c # rest)
         = Some (ownr, takeWhile repoChar (c # rest))"
proof -
  have sw: "startsWith (''github.com/'' @ ownr @ ''/'' @ c # rest) ''github.com/''"
    by (rule startsWith_append)
  have tw: "takeWhile ownerChar (ownr @ ''/'' @ c # rest) = ownr"
    using assms(2) by (subst takeWhile_append2) (auto simp: ownerChar_def)
  have dw: "dropWhile ownerChar (ownr @ ''/'' @ c # rest) = ''/'' @ c # rest"
    using assms(2) by (subst dropWhile_append2) (auto simp: ownerChar_def)
  show ?thesis
    unfolding matchCore_def using sw tw dw assms(1,3) by (simp add: Let_def)
qed

lemma matchCore_SomeD:
  assumes "matchCore s = Some m"
  shows "\<exists>ownr c rest. s = ''github.com/'' @ ownr @ ''/'' @ c # rest
            \<and> ownr \<noteq> [] \<and> CHR ''/'' \<notin> set ownr \<and> repoChar c"
proof -
  from assms have sw: "startsWith s ''github.com/''"
    unfolding matchCore_def by (auto split: if_splits)
  define r where "r = drop 11 s"
  from sw obtain r0 where "s = ''github.com/'' @ r0" by (auto simp: startsWith_iff)
  then have s: "s = ''github.com/'' @ r" by (simp add: r_def)
  define ownr where "ownr = takeWhile ownerChar r"
  from assms sw have ne: "ownr \<noteq> []"
    unfolding matchCore_def ownr_def r_def by (auto simp: Let_def split: if_splits)
  from assms sw ne obtain x r' where dw: "dropWhile ownerChar r = x # r'"
    and rp: "takeWhile repoChar r' \<noteq> []"
    unfolding matchCore_def ownr_def r_def
    by (auto simp: Let_def split: if_splits list.splits)
  have "\<not> ownerChar x" using dw by (metis hd_dropWhile list.sel(1) list.distinct(1))
  then have x: "x = CHR ''/''" by (simp add: ownerChar_def)
  from rp obtain c rest where r': "r' = c # rest" and c: "repoChar c"
    by (cases r') (auto split: if_splits)
  have "r = ownr @ x # r'"
    using takeWhile_dropWhile_id [of ownerChar r] dw by (simp add: ownr_def)
  with s x r' have "s = ''github.com/'' @ ownr @ ''/'' @ c # rest" by simp
  moreover have "CHR ''/'' \<notin> set ownr"
    unfolding ownr_def using set_takeWhileD [of "CHR ''/''" ownerChar r] by (auto simp: ownerChar_def)
  ultimately show ?thesis using ne c by blast
qed

lemma stripScheme_SomeD: "stripScheme s = Some r \<Longrightarrow> \<exists>sch. s = sch @ r"
  unfolding stripScheme_def
  by (auto split: if_splits) (metis append_take_drop_id)+

lemma matchHere_SomeD:
  assumes "matchHere s = Some m"
  shows "\<exists>sch t. s = sch @ t \<and> matchCore t = Some m"
proof (cases "stripScheme s")
  case None
  with assms have "matchCore s = Some m" by (simp add: matchHere_def)
  then have "s = [] @ s \<and> matchCore s = Some m" by simp
  then show ?thesis by blast
next
  case (Some r)
  then obtain sch where s: "s = sch @ r" using stripScheme_SomeD by blast
  show ?thesis
  proof (cases "matchCore r")
    case None
    with Some assms have "matchCore s = Some m" by (simp add: matchHere_def)
    then have "s = [] @ s \<and> matchCore s = Some m" by simp
    then show ?thesis by blast
  next
    case (Some m')
    with \<open>stripScheme s = Some r\<close> assms have "m' = m" by (simp add: matchHere_def)
    with Some s show ?thesis by blast
  qed
qed

lemma matchHere_of_matchCore: "matchCore s = Some m \<Longrightarrow> \<exists>m'. matchHere s = Some m'"
  by (auto simp: matchHere_def split: option.splits)

lemma regexSearch_SomeD:
  "regexSearch s = Some m \<Longrightarrow> \<exists>pre t. s = pre @ t \<and> matchHere t = Some m"
proof (induction s)
  case Nil
  then show ?case by auto
next
  case (Cons c cs)
  show ?case
  proof (cases "matchHere (c # cs)")
    case None
    with Cons.prems have "regexSearch cs = Some m" by simp
    with Cons.IH obtain pre t where "cs = pre @ t" "matchHere t = Some m" by blast
    then have "c # cs = (c # pre) @ t \<and> matchHere t = Some m" by simp
    then show ?thesis by blast
  next
    case (Some m')
    with Cons.prems have "m' = m" by simp
    with Some have "c # cs = [] @ (c # cs) \<and> matchHere (c # cs) = Some m" by simp
    then show ?thesis by blast
  qed
qed

lemma regexSearch_found:
  "matchHere t = Some m \<Longrightarrow> \<exists>m'. regexSearch (pre @ t) = Some m'"
proof (induction pre)
  case Nil
  then show ?case by (cases t) auto
next
  case (Cons c pre)
  then show ?case by (cases "matchHere (c # pre @ t)") auto
qed

lemma regexSearch_head:
  "matchHere s = Some m \<Longrightarrow> regexSearch s = Some m"
  by (cases s) auto

lemma regexSearch_None_iff:
  "regexSearch url = None \<longleftrightarrow>
     \<not> (\<exists>pre ownr c rest. url = pre @ ''github.com/'' @ ownr @ ''/'' @ c # rest
            \<and> ownr \<noteq> [] \<and> CHR ''/'' \<notin> set ownr \<and> repoChar c)"
  (is "_ \<longleftrightarrow> \<not> ?path")
proof
  assume none: "regexSearch url = None"
  show "\<not> ?path"
  proof
    assume "?path"
    then obtain pre ownr c rest where u: "url = pre @ ''github.com/'' @ ownr @ ''/'' @ c # rest"
      and h: "ownr \<noteq> []" "CHR ''/'' \<notin> set ownr" "repoChar c"
      by blast
    from matchCore_path [OF h] obtain m' where
      "matchHere (''github.com/'' @ ownr @ ''/'' @ c # rest) = Some m'"
      using matchHere_of_matchCore by blast
    from regexSearch_found [OF this, of pre] u none show False by simp
  qed
next
  assume no: "\<not> ?path"
  show "regexSearch url = None"
  proof (rule ccontr)
    assume "regexSearch url \<noteq> None"
    then obtain m where "regexSearch url = Some m" by auto
    then obtain pre t where u: "url = pre @ t" and mh: "matchHere t = Some m"
      using regexSearch_SomeD by blast
    from mh obtain sch t' where t: "t = sch @ t'" and mc: "matchCore t' = Some m"
      using matchHere_SomeD by blast
    from matchCore_SomeD [OF mc] obtain ownr c rest where
      t': "t' = ''github.com/'' @ ownr @ ''/'' @ c # rest"
      and h: "ownr \<noteq> []" "CHR ''/'' \<notin> set ownr" "repoChar c" by blast
    from u t t' have "url = (pre @ sch) @ ''github.com/'' @ ownr @ ''/'' @ c # rest" by simp
    with h have "?path" by blast
    with no show False ..
  qed
qed


lemma takeWhile_repo_suffix:
  assumes "\<forall>c \<in> set nm. repoChar c" "suffix \<in> {[], ''/'', ''.git'', ''.git/''}"
  shows "takeWhile repoChar (nm @ suffix) = nm \<or> takeWhile repoChar (nm @ suffix) = nm @ ''.git''"
proof -
  have "takeWhile repoChar (nm @ suffix) = nm @ takeWhile repoChar suffix"
    using assms(1) by (simp add: takeWhile_append2)
  moreover have "takeWhile repoChar suffix = [] \<or> takeWhile repoChar suffix = ''.git''"
    using assms(2) by (auto simp: repoChar_def isSpace_def)
  ultimately show ?thesis by auto
qed

lemma stripDotGit_keep: "\<not> endsWith nm ''.git'' \<Longrightarrow> stripDotGit nm = nm"
  by (simp add: stripDotGit_def)

lemma stripDotGit_cut: "stripDotGit (nm @ ''.git'') = nm"
proof -
  have "endsWith (nm @ ''.git'') ''.git''" by (auto simp: endsWith_iff)
  then show ?thesis by (simp add: stripDotGit_def)
qed

lemma matchHere_scheme:
  assumes "matchCore core = Some m" "startsWith core ''github.com/''"
    "scheme \<in> {[], ''http://'', ''https://''}"
  shows "matchHere (scheme @ core) = Some m"
proof -
  from assms(2) obtain r where core: "core = ''github.com/'' @ r" by (auto simp: startsWith_iff)
  consider "scheme = []" | "scheme = ''http://''" | "scheme = ''https://''" using assms(3) by auto
  then show ?thesis
  proof cases
    case 1
    then have "stripScheme (scheme @ core) = None" by (simp add: core stripScheme_def)
    with 1 assms(1) show ?thesis by (simp add: matchHere_def)
  next
    case 2
    then have "stripScheme (scheme @ core) = Some core" by (simp add: stripScheme_def)
    with assms(1) show ?thesis by (simp add: matchHere_def)
  next
    case 3
    then have "stripScheme (scheme @ core) = Some core" by (simp add: stripScheme_def)
    with assms(1) show ?thesis by (simp add: matchHere_def)
  qed
qed

lemma parse_accepted_form:
  assumes "ownr \<noteq> []" "CHR ''/'' \<notin> set ownr" "nm \<noteq> []" "\<forall>c \<in> set nm. repoChar c"
    "\<not> endsWith nm ''.git''"
    "scheme \<in> {[], ''http://'', ''https://''}" "suffix \<in> {[], ''/'', ''.git'', ''.git/''}"
  shows "parseGitHubUrl (scheme @ ''github.com/'' @ ownr @ ''/'' @ nm @ suffix) = Inr (ownr, nm)"
proof -
  from assms(3) obtain c nm' where nm: "nm = c # nm'" by (cases nm) auto
  with assms(4) have c: "repoChar c" by simp
  define core where "core = ''github.com/'' @ ownr @ ''/'' @ nm @ suffix"
  have core': "core = ''github.com/'' @ ownr @ ''/'' @ c # (nm' @ suffix)"
    by (simp add: core_def nm)
  have mc: "matchCore core = Some (ownr, takeWhile repoChar (nm @ suffix))"
    unfolding core' using matchCore_path [OF assms(1,2) c, of "nm' @ suffix"] by (simp add: nm)
  have sw: "startsWith core ''github.com/''" unfolding core_def by (rule startsWith_append)
  have "regexSearch (scheme @ core) = Some (ownr, takeWhile repoChar (nm @ suffix))"
    by (rule regexSearch_head) (rule matchHere_scheme [OF mc sw assms(6)])
  moreover have "stripDotGit (takeWhile repoChar (nm @ suffix)) = nm"
    using takeWhile_repo_suffix [OF assms(4,7)] stripDotGit_keep [OF assms(5)] stripDotGit_cut [of nm]
    by auto
  ultimately show ?thesis by (simp add: parseGitHubUrl_def core_def)
qed

section \<open>Claims about parseGitHubUrl\<close>

text \<open>
  Claim C1, as the code has it. A string of the form \<open>github.com/owner/name\<close>, with
  or without \<open>http://\<close> or \<open>https://\<close> in front and with or without a trailing
  \<open>.git\<close>, slash or both, parses to the same pair \<open>(owner, name)\<close>: here the owner
  is not empty and has no slash, and the name is not empty, has no slash, white space,
  \<open>?\<close> or \<open>#\<close>, and does not itself end in \<open>.git\<close>. Parsing fails with the
  invalid-URL error exactly for the strings in which no \<open>github.com/owner/c\<close> occurs
  anywhere (\<open>c\<close> a first character of a name); a bare \<open>owner/name\<close> is such a string.
\<close>

theorem C1_parseGitHubUrl_forms:
  "(ownr \<noteq> [] \<and> CHR ''/'' \<notin> set ownr \<and> nm \<noteq> [] \<and> (\<forall>c \<in> set nm. repoChar c)
      \<and> \<not> endsWith nm ''.git''
      \<and> scheme \<in> {[], ''http://'', ''https://''} \<and> suffix \<in> {[], ''/'', ''.git'', ''.git/''}
    \<longrightarrow> parseGitHubUrl (scheme @ ''github.com/'' @ ownr @ ''/'' @ nm @ suffix) = Inr (ownr, nm))
   \<and> (parseGitHubUrl url = Inl InvalidGitHubUrl \<longleftrightarrow>
        \<not> (\<exists>pre o' c rest. url = pre @ ''github.com/'' @ o' @ ''/'' @ c # rest
              \<and> o' \<noteq> [] \<and> CHR ''/'' \<notin> set o' \<and> repoChar c))"
proof (intro conjI impI)
  assume "ownr \<noteq> [] \<and> CHR ''/'' \<notin> set ownr \<and> nm \<noteq> [] \<and> (\<forall>c \<in> set nm. repoChar c)
      \<and> \<not> endsWith nm ''.git''
      \<and> scheme \<in> {[], ''http://'', ''https://''} \<and> suffix \<in> {[], ''/'', ''.git'', ''.git/''}"
  then show "parseGitHubUrl (scheme @ ''github.com/'' @ ownr @ ''/'' @ nm @ suffix) = Inr (ownr, nm)"
    by (intro parse_accepted_form) simp_all
next
  have "parseGitHubUrl url = Inl InvalidGitHubUrl \<longleftrightarrow> regexSearch url = None"
    by (auto simp: parseGitHubUrl_def split: option.splits)
  also note regexSearch_None_iff
  finally show "parseGitHubUrl url = Inl InvalidGitHubUrl \<longleftrightarrow>
        \<not> (\<exists>pre o' c rest. url = pre @ ''github.com/'' @ o' @ ''/'' @ c # rest
              \<and> o' \<noteq> [] \<and> CHR ''/'' \<notin> set o' \<and> repoChar c)"
    .
qed

theorem C1_parseGitHubUrl_forms_witness:
  "parseGitHubUrl ''https://github.com/octo/hello.git/'' = Inr (''octo'', ''hello'')
   \<and> parseGitHubUrl ''octo/hello'' = Inl InvalidGitHubUrl"
proof -
  have a: "parseGitHubUrl (''https://'' @ ''github.com/'' @ ''octo'' @ ''/'' @ ''hello'' @ ''.git/'')
           = Inr (''octo'', ''hello'')"
    using C1_parseGitHubUrl_forms [of "''octo''" "''hello''" "''https://''" "''.git/''" "[]"]
    by (simp add: repoChar_def isSpace_def endsWith_def)
  have b: "parseGitHubUrl ''octo/hello'' = Inl InvalidGitHubUrl" by code_simp
  from a b show ?thesis by simp
qed

theorem C1_bare_form_counterexample:
  "parseGitHubUrl ''owner/name'' = Inl InvalidGitHubUrl
   \<and> parseGitHubUrl ''github.com/owner/name'' = Inr (''owner'', ''name'')
   \<and> parseGitHubUrl ''see github.com/owner/name/issues for more'' = Inr (''owner'', ''name'')"
  by code_simp

section \<open>Claims about truncation\<close>

lemma length_truncateText: "length (truncateText t n) \<le> n + 3"
  by (simp add: truncateText_def)

lemma length_flattenNewlines [simp]: "length (flattenNewlines s) = length s"
  by (simp add: flattenNewlines_def)

lemma toIssueInfo_body: "issBody (toIssueInfo r) = Some b \<Longrightarrow> length b \<le> 503"
  using length_truncateText [of _ 500] by (auto simp: toIssueInfo_def split: if_splits)

lemma fetchIssues_body:
  "i \<in> set (fetchIssues gh ownr repo limit) \<Longrightarrow> issBody i = Some b \<Longrightarrow> length b \<le> 503"
  by (auto simp: fetchIssues_def split: option.splits dest: toIssueInfo_body)

lemma indexRepository_fields:
  assumes "indexRepository gh clock url = Inr (Some idx)"
  shows "\<exists>ownr repo. parseGitHubUrl url = Inr (ownr, repo)
           \<and> readme idx = (let t = fetchFileContent gh ownr repo ''README.md''
                            in if truthy t then Some (truncateText (the t) 8000) else None)
           \<and> contributing idx = (let t = fetchFileContent gh ownr repo ''CONTRIBUTING.md''
                            in if truthy t then Some (truncateText (the t) 3000) else None)
           \<and> issues idx = fetchIssues gh ownr repo 30"
proof -
  from assms obtain ownr repo where p: "parseGitHubUrl url = Inr (ownr, repo)"
    unfolding indexRepository_def by (auto split: sum.splits)
  from assms p obtain m where m: "fetchRepoMetadata gh ownr repo = Some m"
    unfolding indexRepository_def by (auto simp: Let_def split: option.splits)
  from assms p m have "readme idx = (let t = fetchFileContent gh ownr repo ''README.md''
                            in if truthy t then Some (truncateText (the t) 8000) else None)"
    by (auto simp: indexRepository_def Let_def)
  moreover from assms p m have "contributing idx = (let t = fetchFileContent gh ownr repo ''CONTRIBUTING.md''
                            in if truthy t then Some (truncateText (the t) 3000) else None)"
    by (auto simp: indexRepository_def Let_def)
  moreover from assms p m have "issues idx = fetchIssues gh ownr repo 30"
    by (auto simp: indexRepository_def Let_def)
  ultimately show ?thesis using p by blast
qed

lemma formatIssue_excerpt:
  "issBody i = Some b \<Longrightarrow> b \<noteq> [] \<Longrightarrow>
     \<exists>headline. formatIssue i = headline @ ''\<newline>  > '' @ flattenNewlines (truncateText b 150)"
  by (simp add: formatIssue_def Let_def truthy_def)

text \<open>
  Claim C2, as the code has it. \<open>truncateText\<close> cuts a longer text at the limit and
  then appends three dots. In every snapshot that \<open>indexRepository\<close> returns, the
  stored README has at most 8003 characters and the stored contributing text at most
  3003; the stored body of every issue has at most 503 characters, and the one-line
  excerpt of it that \<open>formatIssue\<close> renders has at most 153.
\<close>

theorem C2_truncation_bounds:
  assumes "indexRepository gh clock url = Inr (Some idx)"
  shows "(\<forall>t. readme idx = Some t \<longrightarrow> length t \<le> 8003)
       \<and> (\<forall>t. contributing idx = Some t \<longrightarrow> length t \<le> 3003)
       \<and> (\<forall>i \<in> set (issues idx). \<forall>b. issBody i = Some b \<longrightarrow>
             length b \<le> 503
             \<and> (\<exists>headline. formatIssue i = headline @ ''\<newline>  > '' @ flattenNewlines (truncateText b 150))
             \<and> length (flattenNewlines (truncateText b 150)) \<le> 153)"
proof -
  from indexRepository_fields [OF assms] obtain ownr repo where
    r: "readme idx = (let t = fetchFileContent gh ownr repo ''README.md''
                      in if truthy t then Some (truncateText (the t) 8000) else None)"
    and c: "contributing idx = (let t = fetchFileContent gh ownr repo ''CONTRIBUTING.md''
                      in if truthy t then Some (truncateText (the t) 3000) else None)"
    and i: "issues idx = fetchIssues gh ownr repo 30" by blast
  have "\<forall>t. readme idx = Some t \<longrightarrow> length t \<le> 8003"
    using r length_truncateText [of _ 8000] by (auto simp: Let_def split: if_splits)
  moreover have "\<forall>t. contributing idx = Some t \<longrightarrow> length t \<le> 3003"
    using c length_truncateText [of _ 3000] by (auto simp: Let_def split: if_splits)
  moreover have "\<forall>i \<in> set (issues idx). \<forall>b. issBody i = Some b \<longrightarrow>
             length b \<le> 503
             \<and> (\<exists>headline. formatIssue i = headline @ ''\<newline>  > '' @ flattenNewlines (truncateText b 150))
             \<and> length (flattenNewlines (truncateText b 150)) \<le> 153"
  proof (intro ballI allI impI conjI)
    fix j b assume j: "j \<in> set (issues idx)" and b: "issBody j = Some b"
    from j b i show "length b \<le> 503" using fetchIssues_body by metis
    from j i obtain r where "j = toIssueInfo r" by (auto simp: fetchIssues_def split: option.splits)
    with b have "b \<noteq> []" by (auto simp: toIssueInfo_def truncateText_def truthy_def split: if_splits option.splits)
    with b show "\<exists>headline. formatIssue j = headline @ ''\<newline>  > '' @ flattenNewlines (truncateText b 150)"
      by (rule formatIssue_excerpt)
    show "length (flattenNewlines (truncateText b 150)) \<le> 153"
      using length_truncateText [of b 150] by simp
  qed
  ultimately show ?thesis by blast
qed

lemma parse_octo_hello: "parseGitHubUrl ''github.com/octo/hello'' = Inr (''octo'', ''hello'')"
  by code_simp

lemma showNat_30: "showNat 30 = ''30''" by code_simp
lemma showNat_15: "showNat 15 = ''15''" by code_simp

lemma concat_replicate_no_newline:
  "filter (\<lambda>c. c \<noteq> CHR 0x0A) (concat (replicate n ''YWFh'')) = concat (replicate n ''YWFh'')"
  by (induction n) simp_all

lemma concat_replicate_nonempty: "concat (replicate 2667 ''YWFh'') \<noteq> []"
  by (simp add: eval_nat_numeral)

lemma sample_readme_fetch:
  "fetchFileContent sampleGitHub ''octo'' ''hello'' ''README.md'' = Some (replicate 8001 (CHR ''a''))"
  using concat_replicate_nonempty
  by (simp add: fetchFileContent_def sampleGitHub_def apiRepo_def truthy_def
      concat_replicate_no_newline)

lemma sample_contributing_fetch:
  "fetchFileContent sampleGitHub ''octo'' ''hello'' ''CONTRIBUTING.md'' = None"
  by (simp add: fetchFileContent_def sampleGitHub_def apiRepo_def)

lemma sample_issues_fetch:
  "fetchIssues sampleGitHub ''octo'' ''hello'' 30 = [toIssueInfo sampleRawIssue]"
  by (simp add: fetchIssues_def sampleGitHub_def apiRepo_def showNat_30 sampleRawIssue_def)

lemma sample_tree_fetch: "fetchFileTree sampleGitHub ''octo'' ''hello'' [] 0 3 = []"
  by (subst fetchFileTree.simps) (simp add: sampleGitHub_def)

lemma sample_indexRepository:
  "indexRepository sampleGitHub 0 ''github.com/octo/hello'' = Inr (Some sampleIndex)"
proof -
  have m: "fetchRepoMetadata sampleGitHub ''octo'' ''hello'' = Some sampleMetadata"
    by (simp add: fetchRepoMetadata_def apiRepo_def sampleGitHub_def)
  have p: "fetchPullRequests sampleGitHub ''octo'' ''hello'' 15 = []"
    by (simp add: fetchPullRequests_def sampleGitHub_def)
  have l: "fetchLanguages sampleGitHub ''octo'' ''hello'' = []"
    by (simp add: fetchLanguages_def sampleGitHub_def)
  show ?thesis
    unfolding indexRepository_def
    by (simp add: parse_octo_hello sample_readme_fetch sample_contributing_fetch
        sample_issues_fetch sample_tree_fetch m p l Let_def sampleMetadata_def sampleIndex_def
        truthy_def truncateText_def toIssueInfo_def sampleRawIssue_def)
qed

theorem C2_truncation_bounds_witness:
  "indexRepository sampleGitHub 0 ''github.com/octo/hello'' = Inr (Some sampleIndex)
   \<and> length (the (readme sampleIndex)) \<le> 8003
   \<and> length (the (issBody (hd (issues sampleIndex)))) \<le> 503"
  using C2_truncation_bounds [OF sample_indexRepository] sample_indexRepository
  by (simp add: sampleIndex_def)

theorem C2_longer_than_limit_counterexample:
  "indexRepository sampleGitHub 0 ''github.com/octo/hello'' = Inr (Some sampleIndex)
   \<and> length (the (readme sampleIndex)) = 8003
   \<and> length (the (issBody (hd (issues sampleIndex)))) = 503
   \<and> length (flattenNewlines (truncateText (the (issBody (hd (issues sampleIndex)))) 150)) = 153"
  using sample_indexRepository by (simp add: sampleIndex_def truncateText_def)

section \<open>Claims about fetchFilesContent\<close>

lemma map_of_setKey: "map_of (setKey k v kvs) = (map_of kvs)(k \<mapsto> v)"
  by (induction kvs) auto

lemma map_of_fetchOne:
  "map_of (fetchOne gh ownr repo acc q) p =
     (if p = q \<and> truthy (fetchFileContent gh ownr repo q)
      then Some (truncateText (the (fetchFileContent gh ownr repo q)) 6000)
      else map_of acc p)"
  by (simp add: fetchOne_def Let_def map_of_setKey)

lemma map_of_foldl_fetchOne:
  "map_of (foldl (fetchOne gh ownr repo) acc ps) p =
     (if p \<in> set ps \<and> truthy (fetchFileContent gh ownr repo p)
      then Some (truncateText (the (fetchFileContent gh ownr repo p)) 6000)
      else map_of acc p)"
proof (induction ps arbitrary: acc)
  case Nil
  show ?case by simp
next
  case (Cons q ps)
  show ?case by (auto simp: Cons.IH map_of_fetchOne)
qed

lemma fetchFileContent_fetch_failure:
  "getContent gh (apiRepo ownr repo @ ''/contents/'' @ p) = None \<Longrightarrow>
     fetchFileContent gh ownr repo p = None"
  by (simp add: fetchFileContent_def)

lemma fetchFileContent_decode_failure:
  "getContent gh (apiRepo ownr repo @ ''/contents/'' @ p) = Some d \<Longrightarrow>
   atob gh (filter (\<lambda>c. c \<noteq> CHR 0x0A) (the (cdContent d))) = None \<Longrightarrow>
     fetchFileContent gh ownr repo p = None"
  by (simp add: fetchFileContent_def)

text \<open>
  Claim C9. \<open>fetchFilesContent\<close> calls \<open>fetchFileContent\<close> on the first five paths of
  the request, in their order, and on no other: on exactly five when more are given, on
  all of them when five or fewer are. The result has an entry for a path exactly when
  the path is among those and its fetch gave content; a path whose fetch or whose
  decoding failed has no entry. The function has no failing outcome: its result is
  always a mapping.
\<close>

theorem C9_fetchFilesContent_first_five:
  "snd (fetchFilesContent gh ownr repo paths) = take 5 paths
   \<and> (length paths > 5 \<longrightarrow> length (snd (fetchFilesContent gh ownr repo paths)) = 5)
   \<and> (length paths \<le> 5 \<longrightarrow> snd (fetchFilesContent gh ownr repo paths) = paths)
   \<and> map_of (fst (fetchFilesContent gh ownr repo paths)) p =
       (if p \<in> set (take 5 paths) \<and> truthy (fetchFileContent gh ownr repo p)
        then Some (truncateText (the (fetchFileContent gh ownr repo p)) 6000) else None)
   \<and> (getContent gh (apiRepo ownr repo @ ''/contents/'' @ p) = None
        \<longrightarrow> p \<notin> fst ` set (fst (fetchFilesContent gh ownr repo paths)))
   \<and> (\<forall>d. getContent gh (apiRepo ownr repo @ ''/contents/'' @ p) = Some d
            \<and> atob gh (filter (\<lambda>c. c \<noteq> CHR 0x0A) (the (cdContent d))) = None
        \<longrightarrow> p \<notin> fst ` set (fst (fetchFilesContent gh ownr repo paths)))"
proof -
  have m: "map_of (fst (fetchFilesContent gh ownr repo paths)) p =
       (if p \<in> set (take 5 paths) \<and> truthy (fetchFileContent gh ownr repo p)
        then Some (truncateText (the (fetchFileContent gh ownr repo p)) 6000) else None)"
    by (simp add: fetchFilesContent_def map_of_foldl_fetchOne)
  have none: "fetchFileContent gh ownr repo p = None \<Longrightarrow>
                p \<notin> fst ` set (fst (fetchFilesContent gh ownr repo paths))"
    using m by (simp add: truthy_def map_of_eq_None_iff [symmetric])
  have a: "snd (fetchFilesContent gh ownr repo paths) = take 5 paths"
    by (simp add: fetchFilesContent_def)
  have b: "length paths > 5 \<longrightarrow> length (snd (fetchFilesContent gh ownr repo paths)) = 5"
    by (simp add: a)
  have c: "length paths \<le> 5 \<longrightarrow> snd (fetchFilesContent gh ownr repo paths) = paths"
    by (simp add: a)
  have d: "getContent gh (apiRepo ownr repo @ ''/contents/'' @ p) = None
        \<longrightarrow> p \<notin> fst ` set (fst (fetchFilesContent gh ownr repo paths))"
  proof
    assume "getContent gh (apiRepo ownr repo @ ''/contents/'' @ p) = None"
    then have "fetchFileContent gh ownr repo p = None" by (rule fetchFileContent_fetch_failure)
    then show "p \<notin> fst ` set (fst (fetchFilesContent gh ownr repo paths))" by (rule none)
  qed
  have e: "\<forall>d. getContent gh (apiRepo ownr repo @ ''/contents/'' @ p) = Some d
            \<and> atob gh (filter (\<lambda>c. c \<noteq> CHR 0x0A) (the (cdContent d))) = None
        \<longrightarrow> p \<notin> fst ` set (fst (fetchFilesContent gh ownr repo paths))"
  proof (intro allI impI)
    fix d
    assume "getContent gh (apiRepo ownr repo @ ''/contents/'' @ p) = Some d
            \<and> atob gh (filter (\<lambda>c. c \<noteq> CHR 0x0A) (the (cdContent d))) = None"
    then have "fetchFileContent gh ownr repo p = None"
      using fetchFileContent_decode_failure by blast
    then show "p \<notin> fst ` set (fst (fetchFilesContent gh ownr repo paths))" by (rule none)
  qed
  from a b c m d e show ?thesis by blast
qed

theorem C9_fetchFilesContent_first_five_witness:
  "snd (fetchFilesContent sampleGitHub ''octo'' ''hello''
          [''README.md'', ''a.ts'', ''b.ts'', ''c.ts'', ''d.ts'', ''e.ts'', ''f.ts''])
     = [''README.md'', ''a.ts'', ''b.ts'', ''c.ts'', ''d.ts'']
   \<and> snd (fetchFilesContent sampleGitHub ''octo'' ''hello'' [''README.md'', ''a.ts''])
     = [''README.md'', ''a.ts'']
   \<and> ''a.ts'' \<notin> fst ` set (fst (fetchFilesContent sampleGitHub ''octo'' ''hello''
          [''README.md'', ''a.ts'']))"
  using C9_fetchFilesContent_first_five [of sampleGitHub "''octo''" "''hello''"
      "[''README.md'', ''a.ts'', ''b.ts'', ''c.ts'', ''d.ts'', ''e.ts'', ''f.ts'']" "''a.ts''"]
    C9_fetchFilesContent_first_five [of sampleGitHub "''octo''" "''hello''"
      "[''README.md'', ''a.ts'']" "''a.ts''"]
  by (simp add: sampleGitHub_def apiRepo_def)

section \<open>Claims about the language breakdown\<close>

lemma foldl_plus: "foldl (\<lambda>a b. a + b) (a :: int) xs = a + sum_list xs"
  by (induction xs arbitrary: a) simp_all

lemma sum_list_all_zero: "\<forall>x \<in> set xs. f x = (0 :: int) \<Longrightarrow> sum_list (map f xs) = 0"
  by (induction xs) auto

lemma totalBytesOf_sum: "totalBytesOf langs = sum_list (map snd langs)"
  by (simp add: totalBytesOf_def foldl_plus)

lemma percentage_finite:
  "t \<noteq> 0 \<Longrightarrow>
     percentage b t = Finite (of_int \<lfloor>(of_int b :: rat) / of_int t * 100 + 1 / 2\<rfloor>)"
  by (simp add: percentage_def jsDiv_def)

text \<open>
  Claim C10. Context assembly has one computation that could go wrong, the division of
  the percentage, and no failing branch otherwise. The section of the languages is
  empty whenever the total of the bytes is not positive, in particular for an empty or
  an all-zero mapping; and whenever the section is there, the total is positive and
  every percentage in it is a finite number, never \<open>NaN\<close> or an infinity.
\<close>

theorem C10_percentage_guarded:
  "(totalBytesOf (languages idx) \<le> 0 \<longrightarrow> languagesSection idx = [])
   \<and> (languages idx = [] \<or> (\<forall>e \<in> set (languages idx). snd e = 0) \<longrightarrow> languagesSection idx = [])
   \<and> (languagesSection idx \<noteq> [] \<longrightarrow>
        0 < totalBytesOf (languages idx)
        \<and> languagesSection idx =
            [''**Languages:** '' @ langBreakdown (languages idx) (totalBytesOf (languages idx))]
        \<and> (\<forall>e \<in> set (languages idx).
              jsDiv (snd e) (totalBytesOf (languages idx))
                = Finite (of_int (snd e) / of_int (totalBytesOf (languages idx)))
              \<and> (\<exists>r. percentage (snd e) (totalBytesOf (languages idx)) = Finite r)))"
proof (intro conjI impI)
  assume "totalBytesOf (languages idx) \<le> 0"
  then show "languagesSection idx = []" by (simp add: languagesSection_def Let_def)
next
  assume z: "languages idx = [] \<or> (\<forall>e \<in> set (languages idx). snd e = 0)"
  have "sum_list (map snd (languages idx)) = 0"
    using z by (auto intro: sum_list_all_zero)
  then show "languagesSection idx = []"
    by (simp add: languagesSection_def Let_def totalBytesOf_sum)
next
  assume ne: "languagesSection idx \<noteq> []"
  then show pos: "0 < totalBytesOf (languages idx)"
    by (auto simp: languagesSection_def Let_def split: if_splits)
  then show "languagesSection idx =
            [''**Languages:** '' @ langBreakdown (languages idx) (totalBytesOf (languages idx))]"
    by (simp add: languagesSection_def Let_def)
  from pos show "\<forall>e \<in> set (languages idx).
              jsDiv (snd e) (totalBytesOf (languages idx))
                = Finite (of_int (snd e) / of_int (totalBytesOf (languages idx)))
              \<and> (\<exists>r. percentage (snd e) (totalBytesOf (languages idx)) = Finite r)"
    by (simp add: jsDiv_def percentage_finite)
qed


lemma sample_languagesSection:
  "languagesSection (sampleIndex\<lparr>languages := [(''TypeScript'', 3), (''CSS'', 1)]\<rparr>)
     = [''**Languages:** TypeScript (75%), CSS (25%)'']"
  by code_simp

theorem C10_percentage_guarded_witness:
  "languagesSection (sampleIndex\<lparr>languages := [(''TypeScript'', 3), (''CSS'', 1)]\<rparr>)
     = [''**Languages:** TypeScript (75%), CSS (25%)'']
   \<and> percentage 3 4 \<noteq> NaN
   \<and> languagesSection (sampleIndex\<lparr>languages := [(''TypeScript'', 0), (''CSS'', 0)]\<rparr>) = []"
  using C10_percentage_guarded [of "sampleIndex\<lparr>languages := [(''TypeScript'', 3), (''CSS'', 1)]\<rparr>"]
    C10_percentage_guarded [of "sampleIndex\<lparr>languages := [(''TypeScript'', 0), (''CSS'', 0)]\<rparr>"]
    sample_languagesSection
  by (auto simp: totalBytesOf_def)

section \<open>Claims about the router\<close>

lemma toLowerCase_append [simp]: "toLowerCase (a @ b) = toLowerCase a @ toLowerCase b"
  by (simp add: toLowerCase_def)

lemma issueOnly_good_first_issue:
  assumes "toLowerCase mid = ''good first issue''"
  shows "someTest issueOnlyPatterns (pre @ mid @ post)"
proof -
  have "includesStr (toLowerCase (pre @ mid @ post)) ''good first issue''"
    unfolding includesStr_iff using assms by auto
  then show ?thesis
    unfolding someTest_def issueOnlyPatterns_def by simp
qed

lemma length_candidateFiles: "length (candidateFiles idx) \<le> 100"
  by (simp add: candidateFiles_def)

lemma set_candidateFiles:
  "set (candidateFiles idx) \<subseteq> fnPath ` {f \<in> set (fileTree idx). fnType f = File}"
proof -
  have "set (candidateFiles idx) \<subseteq> set (map fnPath (filter (\<lambda>f. fnType f = File) (fileTree idx)))"
    unfolding candidateFiles_def by (rule set_take_subset)
  then show ?thesis by auto
qed

text \<open>
  Claim C5. \<open>analyzeQuery\<close> decides in two tiers before it asks the model. A question
  that matches an issue-only pattern, as any question containing \<open>good first issue\<close> in
  any letter case does, gets \<open>needsFiles = false\<close> with no files and no model call. So
  does a question that matches no needs-code pattern. The model is called exactly when
  a needs-code pattern matches and no issue-only pattern does, once, with a prompt that
  lists at most 100 paths, all of them paths of files of the snapshot's tree.
\<close>

theorem C5_routing_precedence:
  "(someTest issueOnlyPatterns q \<longrightarrow>
      analyzeQuery out env q idx = (\<lparr>needsFiles = False, files = []\<rparr>, []))
   \<and> (\<not> someTest needsCodePatterns q \<longrightarrow>
      analyzeQuery out env q idx = (\<lparr>needsFiles = False, files = []\<rparr>, []))
   \<and> (snd (analyzeQuery out env q idx) \<noteq> [] \<longleftrightarrow>
        someTest needsCodePatterns q \<and> \<not> someTest issueOnlyPatterns q)
   \<and> (someTest needsCodePatterns q \<and> \<not> someTest issueOnlyPatterns q \<longrightarrow>
        snd (analyzeQuery out env q idx) =
          [AiRun [(''user'', ''Question: '' @ q @ ''\<newline>\<newline>Available files:\<newline>''
                            @ join ''\<newline>'' (candidateFiles idx) @ ''\<newline>\<newline>''
                            @ QUERY_ANALYZER_PROMPT)] 256])
   \<and> length (candidateFiles idx) \<le> 100
   \<and> set (candidateFiles idx) \<subseteq> fnPath ` {f \<in> set (fileTree idx). fnType f = File}
   \<and> (toLowerCase mid = ''good first issue'' \<longrightarrow> someTest issueOnlyPatterns (pre @ mid @ post))"
proof -
  have a: "someTest issueOnlyPatterns q \<longrightarrow>
      analyzeQuery out env q idx = (\<lparr>needsFiles = False, files = []\<rparr>, [])"
    by (simp add: analyzeQuery_def noFilesNeeded_def)
  have b: "\<not> someTest needsCodePatterns q \<longrightarrow>
      analyzeQuery out env q idx = (\<lparr>needsFiles = False, files = []\<rparr>, [])"
    by (simp add: analyzeQuery_def noFilesNeeded_def)
  have d: "someTest needsCodePatterns q \<and> \<not> someTest issueOnlyPatterns q \<longrightarrow>
        snd (analyzeQuery out env q idx) =
          [AiRun [(''user'', ''Question: '' @ q @ ''\<newline>\<newline>Available files:\<newline>''
                            @ join ''\<newline>'' (candidateFiles idx) @ ''\<newline>\<newline>''
                            @ QUERY_ANALYZER_PROMPT)] 256]"
    by (simp add: analyzeQuery_def routingPrompt_def Let_def split: option.splits)
  have c: "snd (analyzeQuery out env q idx) \<noteq> [] \<longleftrightarrow>
        someTest needsCodePatterns q \<and> \<not> someTest issueOnlyPatterns q"
    using a b d by (cases "someTest issueOnlyPatterns q"; cases "someTest needsCodePatterns q") auto
  have e: "toLowerCase mid = ''good first issue'' \<longrightarrow> someTest issueOnlyPatterns (pre @ mid @ post)"
    using issueOnly_good_first_issue by blast
  from a b c d e length_candidateFiles [of idx] set_candidateFiles [of idx]
  show ?thesis by blast
qed

lemma sample_question_patterns:
  "someTest issueOnlyPatterns ''What are good first issues?''"
  "\<not> someTest issueOnlyPatterns ''How does the component rendering work?''"
  "someTest needsCodePatterns ''How does the component rendering work?''"
  by code_simp+

theorem C5_routing_precedence_witness:
  "analyzeQuery sampleOutside sampleEnv ''What are good first issues?'' sampleIndex
     = (\<lparr>needsFiles = False, files = []\<rparr>, [])
   \<and> length (snd (analyzeQuery sampleOutside sampleEnv
                    ''How does the component rendering work?'' sampleIndex)) = 1"
  using C5_routing_precedence [of "''What are good first issues?''" sampleOutside sampleEnv
      sampleIndex "[]" "[]" "[]"]
    C5_routing_precedence [of "''How does the component rendering work?''" sampleOutside sampleEnv
      sampleIndex "[]" "[]" "[]"]
    sample_question_patterns
  by simp

section \<open>Facts about parseQueryAnalysis\<close>

text \<open>
  What \<open>parseQueryAnalysis\<close> does with a response. Where \<open>JSON.parse\<close> throws on
  the cleaned response, and where it yields \<open>null\<close> or any other value that is not an
  object, the decision is \<open>needsFiles = false\<close> with no files. An object is not
  checked against the expected shape: \<open>needsFiles\<close> is the truth value that JavaScript
  gives its property of that name, and \<open>files\<close> is its property of that name where
  that is an array, whatever its elements are, and empty otherwise. A failed model call
  during routing yields \<open>needsFiles = false\<close> with no files.
\<close>

lemma parseQueryAnalysis_fallback:
  "(jp (trim (removeFences (removeJsonFences response))) = None \<longrightarrow>
      parseQueryAnalysis jp response = \<lparr>needsFiles = False, files = []\<rparr>)
   \<and> (\<forall>v. jp (trim (removeFences (removeJsonFences response))) = Some v
            \<and> (\<forall>props. v \<noteq> JObject props) \<longrightarrow>
      parseQueryAnalysis jp response = \<lparr>needsFiles = False, files = []\<rparr>)
   \<and> (\<forall>props. jp (trim (removeFences (removeJsonFences response))) = Some (JObject props) \<longrightarrow>
      parseQueryAnalysis jp response =
        \<lparr>needsFiles = toBoolean (map_of props ''needsFiles''),
         files = arrayOrEmpty (map_of props ''files'')\<rparr>)
   \<and> (\<not> someTest issueOnlyPatterns q \<and> someTest needsCodePatterns q
        \<and> AI env [(''user'', routingPrompt q idx)] 256 = None \<longrightarrow>
      fst (analyzeQuery out env q idx) = \<lparr>needsFiles = False, files = []\<rparr>)"
proof (intro conjI allI impI)
  assume "jp (trim (removeFences (removeJsonFences response))) = None"
  then show "parseQueryAnalysis jp response = \<lparr>needsFiles = False, files = []\<rparr>"
    by (simp add: parseQueryAnalysis_def noFilesNeeded_def)
next
  fix v
  assume h: "jp (trim (removeFences (removeJsonFences response))) = Some v
            \<and> (\<forall>props. v \<noteq> JObject props)"
  then show "parseQueryAnalysis jp response = \<lparr>needsFiles = False, files = []\<rparr>"
    by (cases v) (simp_all add: parseQueryAnalysis_def noFilesNeeded_def)
next
  fix props
  assume "jp (trim (removeFences (removeJsonFences response))) = Some (JObject props)"
  then show "parseQueryAnalysis jp response =
        \<lparr>needsFiles = toBoolean (map_of props ''needsFiles''),
         files = arrayOrEmpty (map_of props ''files'')\<rparr>"
    by (simp add: parseQueryAnalysis_def)
next
  assume "\<not> someTest issueOnlyPatterns q \<and> someTest needsCodePatterns q
        \<and> AI env [(''user'', routingPrompt q idx)] 256 = None"
  then show "fst (analyzeQuery out env q idx) = \<lparr>needsFiles = False, files = []\<rparr>"
    by (simp add: analyzeQuery_def noFilesNeeded_def Let_def)
qed

lemma sample_cleaned:
  \<open>trim (removeFences (removeJsonFences ''```json\<newline>{"needsFiles":"no","files":"none"}\<newline>```''))
     = ''{"needsFiles":"no","files":"none"}''\<close>
  \<open>trim (removeFences (removeJsonFences ''Sorry, I cannot answer that.''))
     = ''Sorry, I cannot answer that.''\<close>
  by code_simp+

lemma parseQueryAnalysis_fallback_example:
  \<open>parseQueryAnalysis sampleJsonParse ''Sorry, I cannot answer that.''
     = \<lparr>needsFiles = False, files = []\<rparr>
   \<and> parseQueryAnalysis sampleJsonParse ''null'' = \<lparr>needsFiles = False, files = []\<rparr>\<close>
proof -
  have c: "trim (removeFences (removeJsonFences ''null'')) = ''null''" by code_simp
  have "sampleJsonParse ''Sorry, I cannot answer that.'' = None"
    by (simp add: sampleJsonParse_def)
  moreover have "sampleJsonParse ''null'' = Some JNull" by (simp add: sampleJsonParse_def)
  ultimately have a: "sampleJsonParse (trim (removeFences (removeJsonFences ''Sorry, I cannot answer that.''))) = None"
    and b: "sampleJsonParse (trim (removeFences (removeJsonFences ''null''))) = Some JNull"
    by (simp_all only: sample_cleaned(2) c)
  have "parseQueryAnalysis sampleJsonParse ''Sorry, I cannot answer that.''
     = \<lparr>needsFiles = False, files = []\<rparr>"
    using parseQueryAnalysis_fallback [of sampleJsonParse "''Sorry, I cannot answer that.''"] a by blast
  moreover have "parseQueryAnalysis sampleJsonParse ''null'' = \<lparr>needsFiles = False, files = []\<rparr>"
    using parseQueryAnalysis_fallback [of sampleJsonParse "''null''"] b by blast
  ultimately show ?thesis by (rule conjI)
qed

lemma parseQueryAnalysis_coerces_example:
  \<open>parseQueryAnalysis sampleJsonParse ''```json\<newline>{"needsFiles":"no","files":"none"}\<newline>```''
     = \<lparr>needsFiles = True, files = []\<rparr>\<close>
proof -
  have \<open>sampleJsonParse ''{"needsFiles":"no","files":"none"}''
          = Some (JObject [(''needsFiles'', JString ''no''), (''files'', JString ''none'')])\<close>
    by (simp add: sampleJsonParse_def)
  then show ?thesis
    by (simp add: parseQueryAnalysis_def sample_cleaned(1))
qed

section \<open>Claims about the assembled context\<close>

lemma truncateText_nonempty: "t \<noteq> [] \<Longrightarrow> truncateText t n \<noteq> []"
  by (simp add: truncateText_def)

lemma sections_order:
  "buildContext idx fs =
     join ''\<newline>'' (headerSection idx @ languagesSection idx @ fileStructureSection idx
                 @ readmeSection idx @ contributingSection idx @ issuesSection idx
                 @ pullRequestsSection idx @ fileContentsSection fs)"
  by (simp add: buildContext_def buildSections_def)

lemma header_always:
  "\<exists>rest. headerSection idx = (''## Repository: '' @ fullName idx) # rest"
  by (simp add: headerSection_def)

lemma languages_omitted:
  "totalBytesOf (languages idx) \<le> 0 \<longrightarrow> languagesSection idx = []"
  by (simp add: languagesSection_def Let_def)

lemma languages_present:
  "0 < totalBytesOf (languages idx) \<longrightarrow>
     languagesSection idx =
       [''**Languages:** '' @ langBreakdown (languages idx) (totalBytesOf (languages idx))]"
  by (simp add: languagesSection_def Let_def)

lemma fileStructure_always:
  "\<exists>rest. fileStructureSection idx = ''\<newline>## File Structure'' # rest
      \<and> (importantFiles idx = [] \<and> topLevelDirs idx = [] \<longrightarrow> rest = [])
      \<and> (importantFiles idx \<noteq> [] \<or> topLevelDirs idx \<noteq> [] \<longrightarrow> rest \<noteq> [])"
  by (auto simp: fileStructureSection_def)

lemma readme_omitted: "\<not> truthy (readme idx) \<longrightarrow> readmeSection idx = []"
  by (simp add: readmeSection_def)

lemma readme_present:
  "truthy (readme idx) \<longrightarrow>
     (\<exists>body. readmeSection idx = [''\<newline>## README (excerpt)'', body] \<and> body \<noteq> [])"
  by (auto simp: readmeSection_def truthy_def truncateText_nonempty split: option.splits)

lemma contributing_omitted: "\<not> truthy (contributing idx) \<longrightarrow> contributingSection idx = []"
  by (simp add: contributingSection_def)

lemma contributing_present:
  "truthy (contributing idx) \<longrightarrow>
     (\<exists>body. contributingSection idx = [''\<newline>## Contributing Guidelines (excerpt)'', body]
        \<and> body \<noteq> [])"
  by (auto simp: contributingSection_def truthy_def truncateText_nonempty split: option.splits)

lemma issues_omitted: "issues idx = [] \<longrightarrow> issuesSection idx = []"
  by (simp add: issuesSection_def)

lemma issues_present:
  "issues idx \<noteq> [] \<longrightarrow>
     (\<exists>goodFirst helpWanted recent.
        issuesSection idx =
          [''\<newline>## Open Issues'',
           ''(IMPORTANT: When mentioning ANY issue, use the markdown link format shown below with the exact URL)'']
          @ goodFirst @ helpWanted @ ''\<newline>### Recent Issues'' # recent
        \<and> recent = map formatIssue (take 10 (issues idx)) \<and> recent \<noteq> []
        \<and> (filter (hasLabelWith [''good first'', ''beginner'']) (issues idx) = [] \<longrightarrow> goodFirst = [])
        \<and> (filter (hasLabelWith [''good first'', ''beginner'']) (issues idx) \<noteq> [] \<longrightarrow>
              goodFirst = ''\<newline>### Good First Issues''
                # map formatIssue (take 5 (filter (hasLabelWith [''good first'', ''beginner'']) (issues idx)))
              \<and> tl goodFirst \<noteq> [])
        \<and> (filter (hasLabelWith [''help wanted'']) (issues idx) = [] \<longrightarrow> helpWanted = [])
        \<and> (filter (hasLabelWith [''help wanted'']) (issues idx) \<noteq> [] \<longrightarrow>
              helpWanted = ''\<newline>### Help Wanted''
                # map formatIssue (take 5 (filter (hasLabelWith [''help wanted'']) (issues idx)))
              \<and> tl helpWanted \<noteq> []))"
  by (simp add: issuesSection_def Let_def)

lemma pullRequests_omitted: "pullRequests idx = [] \<longrightarrow> pullRequestsSection idx = []"
  by (simp add: pullRequestsSection_def)

lemma pullRequests_present:
  "pullRequests idx \<noteq> [] \<longrightarrow>
     (\<exists>lines. pullRequestsSection idx =
         [''\<newline>## Open Pull Requests'', ''(Use these exact URLs when linking to PRs)''] @ lines
       \<and> lines = map formatPR (take 5 (pullRequests idx)) \<and> lines \<noteq> [])"
  by (simp add: pullRequestsSection_def)

lemma fileContents_note:
  "fs = None \<or> fs = Some [] \<longrightarrow>
     fileContentsSection fs =
       [''\<newline>## Note: No file contents loaded'',
        ''To see actual code, the user should ask about specific files. Do NOT make up code.'']"
  by (auto simp: fileContentsSection_def noFilesNote_def)

lemma fileContents_present:
  "(\<forall>es. fs = Some es \<and> es \<noteq> [] \<longrightarrow>
      (\<exists>blocks. fileContentsSection fs =
          ''\<newline>## File Contents (ACTUAL CODE - you may quote this)'' # blocks
        \<and> blocks = concat (map fileBlock es) \<and> blocks \<noteq> []))"
proof (intro allI impI)
  fix es assume h: "fs = Some es \<and> es \<noteq> []"
  then obtain e es' where es: "es = e # es'" by (cases es) auto
  have "concat (map fileBlock es) \<noteq> []" by (simp add: es fileBlock_def)
  with h show "\<exists>blocks. fileContentsSection fs =
          ''\<newline>## File Contents (ACTUAL CODE - you may quote this)'' # blocks
        \<and> blocks = concat (map fileBlock es) \<and> blocks \<noteq> []"
    by (simp add: fileContentsSection_def)
qed

text \<open>
  Claim C3, as the code has it. The assembled context is the sections in one fixed
  order: header, language breakdown, file structure, README excerpt, contributing
  excerpt, issues, pull requests, and the file contents or the note that none are
  loaded. The header is always there, and so is the heading \<open>## File Structure\<close>,
  which stands alone when the snapshot has no important file and no directory. Every
  other section is left out entirely when its data is empty, and has content after its
  heading when it is there; within the issues, the headings of the good first issues and
  of the help wanted issues appear only with issues under them.
\<close>

theorem C3_section_order_and_omission:
  "buildContext idx fs =
     join ''\<newline>'' (headerSection idx @ languagesSection idx @ fileStructureSection idx
                 @ readmeSection idx @ contributingSection idx @ issuesSection idx
                 @ pullRequestsSection idx @ fileContentsSection fs)
   \<and> (\<exists>rest. headerSection idx = (''## Repository: '' @ fullName idx) # rest)
   \<and> (totalBytesOf (languages idx) \<le> 0 \<longrightarrow> languagesSection idx = [])
   \<and> (0 < totalBytesOf (languages idx) \<longrightarrow>
        languagesSection idx =
          [''**Languages:** '' @ langBreakdown (languages idx) (totalBytesOf (languages idx))])
   \<and> (\<exists>rest. fileStructureSection idx = ''\<newline>## File Structure'' # rest
        \<and> (importantFiles idx = [] \<and> topLevelDirs idx = [] \<longrightarrow> rest = [])
        \<and> (importantFiles idx \<noteq> [] \<or> topLevelDirs idx \<noteq> [] \<longrightarrow> rest \<noteq> []))
   \<and> (\<not> truthy (readme idx) \<longrightarrow> readmeSection idx = [])
   \<and> (truthy (readme idx) \<longrightarrow>
        (\<exists>body. readmeSection idx = [''\<newline>## README (excerpt)'', body] \<and> body \<noteq> []))
   \<and> (\<not> truthy (contributing idx) \<longrightarrow> contributingSection idx = [])
   \<and> (truthy (contributing idx) \<longrightarrow>
        (\<exists>body. contributingSection idx = [''\<newline>## Contributing Guidelines (excerpt)'', body]
           \<and> body \<noteq> []))
   \<and> (issues idx = [] \<longrightarrow> issuesSection idx = [])
   \<and> (issues idx \<noteq> [] \<longrightarrow>
     (\<exists>goodFirst helpWanted recent.
        issuesSection idx =
          [''\<newline>## Open Issues'',
           ''(IMPORTANT: When mentioning ANY issue, use the markdown link format shown below with the exact URL)'']
          @ goodFirst @ helpWanted @ ''\<newline>### Recent Issues'' # recent
        \<and> recent = map formatIssue (take 10 (issues idx)) \<and> recent \<noteq> []
        \<and> (filter (hasLabelWith [''good first'', ''beginner'']) (issues idx) = [] \<longrightarrow> goodFirst = [])
        \<and> (filter (hasLabelWith [''good first'', ''beginner'']) (issues idx) \<noteq> [] \<longrightarrow>
              goodFirst = ''\<newline>### Good First Issues''
                # map formatIssue (take 5 (filter (hasLabelWith [''good first'', ''beginner'']) (issues idx)))
              \<and> tl goodFirst \<noteq> [])
        \<and> (filter (hasLabelWith [''help wanted'']) (issues idx) = [] \<longrightarrow> helpWanted = [])
        \<and> (filter (hasLabelWith [''help wanted'']) (issues idx) \<noteq> [] \<longrightarrow>
              helpWanted = ''\<newline>### Help Wanted''
                # map formatIssue (take 5 (filter (hasLabelWith [''help wanted'']) (issues idx)))
              \<and> tl helpWanted \<noteq> [])))
   \<and> (pullRequests idx = [] \<longrightarrow> pullRequestsSection idx = [])
   \<and> (pullRequests idx \<noteq> [] \<longrightarrow>
     (\<exists>lines. pullRequestsSection idx =
         [''\<newline>## Open Pull Requests'', ''(Use these exact URLs when linking to PRs)''] @ lines
       \<and> lines = map formatPR (take 5 (pullRequests idx)) \<and> lines \<noteq> []))
   \<and> (fs = None \<or> fs = Some [] \<longrightarrow>
     fileContentsSection fs =
       [''\<newline>## Note: No file contents loaded'',
        ''To see actual code, the user should ask about specific files. Do NOT make up code.''])
   \<and> (\<forall>es. fs = Some es \<and> es \<noteq> [] \<longrightarrow>
      (\<exists>blocks. fileContentsSection fs =
          ''\<newline>## File Contents (ACTUAL CODE - you may quote this)'' # blocks
        \<and> blocks = concat (map fileBlock es) \<and> blocks \<noteq> []))"
  by (intro conjI sections_order header_always languages_omitted languages_present
      fileStructure_always readme_omitted readme_present contributing_omitted contributing_present
      issues_omitted issues_present pullRequests_omitted pullRequests_present
      fileContents_note fileContents_present)

text \<open>A snapshot with a short README, no file tree, no issues and no pull requests.\<close>

lemma bare_sections:
  "buildSections (sampleIndex\<lparr>readme := Some ''Hello'', issues := []\<rparr>) None =
     [''## Repository: octo/hello'',
      ''**Description:** No description'',
      ''**Primary Language:** TypeScript'',
      ''**Stars:** 100 | **Forks:** 2 | **Open Issues:** 3'',
      ''\<newline>## File Structure'',
      ''\<newline>## README (excerpt)'',
      ''Hello'',
      ''\<newline>## Note: No file contents loaded'',
      ''To see actual code, the user should ask about specific files. Do NOT make up code.'']"
  by code_simp

theorem C3_section_order_and_omission_witness:
  "readmeSection (sampleIndex\<lparr>readme := Some ''Hello'', issues := []\<rparr>)
     = [''\<newline>## README (excerpt)'', ''Hello'']
   \<and> contributingSection (sampleIndex\<lparr>readme := Some ''Hello'', issues := []\<rparr>) = []
   \<and> issuesSection (sampleIndex\<lparr>readme := Some ''Hello'', issues := []\<rparr>) = []
   \<and> pullRequestsSection (sampleIndex\<lparr>readme := Some ''Hello'', issues := []\<rparr>) = []
   \<and> languagesSection (sampleIndex\<lparr>readme := Some ''Hello'', issues := []\<rparr>) = []"
proof -
  have r: "readmeSection (sampleIndex\<lparr>readme := Some ''Hello'', issues := []\<rparr>)
     = [''\<newline>## README (excerpt)'', ''Hello'']" by code_simp
  have "\<not> truthy (contributing (sampleIndex\<lparr>readme := Some ''Hello'', issues := []\<rparr>))"
    "issues (sampleIndex\<lparr>readme := Some ''Hello'', issues := []\<rparr>) = []"
    "pullRequests (sampleIndex\<lparr>readme := Some ''Hello'', issues := []\<rparr>) = []"
    "totalBytesOf (languages (sampleIndex\<lparr>readme := Some ''Hello'', issues := []\<rparr>)) \<le> 0"
    by (simp_all add: sampleIndex_def truthy_def totalBytesOf_def)
  with r show ?thesis
    using C3_section_order_and_omission
      [of "sampleIndex\<lparr>readme := Some ''Hello'', issues := []\<rparr>" None]
    by blast
qed

theorem C3_empty_file_structure_counterexample:
  "fileTree (sampleIndex\<lparr>readme := Some ''Hello'', issues := []\<rparr>) = []
   \<and> fileStructureSection (sampleIndex\<lparr>readme := Some ''Hello'', issues := []\<rparr>)
       = [''\<newline>## File Structure'']
   \<and> take 2 (drop 4 (buildSections (sampleIndex\<lparr>readme := Some ''Hello'', issues := []\<rparr>) None))
       = [''\<newline>## File Structure'', ''\<newline>## README (excerpt)'']"
proof -
  have "fileTree (sampleIndex\<lparr>readme := Some ''Hello'', issues := []\<rparr>) = []"
    by (simp add: sampleIndex_def)
  moreover have "fileStructureSection (sampleIndex\<lparr>readme := Some ''Hello'', issues := []\<rparr>)
       = [''\<newline>## File Structure'']" by code_simp
  moreover have "take 2 (drop 4 (buildSections (sampleIndex\<lparr>readme := Some ''Hello'', issues := []\<rparr>) None))
       = [''\<newline>## File Structure'', ''\<newline>## README (excerpt)'']"
    by (simp add: bare_sections)
  ultimately show ?thesis by blast
qed

section \<open>Facts about the handlers\<close>

lemma fresh_iff: "fresh now ex \<longleftrightarrow> now - indexedAt ex < 1800000"
proof -
  have "fresh now ex \<longleftrightarrow> (of_int (now - indexedAt ex) :: rat) < of_int 1800 * 1000"
    by (simp add: fresh_def ageSeconds_def CACHE_TTL_def field_simps)
  also have "\<dots> \<longleftrightarrow> (of_int (now - indexedAt ex) :: rat) < of_int 1800000" by simp
  also have "\<dots> \<longleftrightarrow> now - indexedAt ex < 1800000" by (simp only: of_int_less_iff)
  finally show ?thesis .
qed

lemma kvGet_kvPut:
  "kvGet (kvPut kv clock key v ttl) t key = (if t < clock + ttl * 1000 then Some v else None)"
  by (simp add: kvGet_def kvPut_def)

lemma generateAnswer_calls: "\<exists>m. snd (generateAnswer env q ctx) = [AiRun m 2048]"
  by (simp add: generateAnswer_def Let_def split: option.splits)

lemma finishAnswer_calls: "\<exists>m. snd (finishAnswer env q idx fs steps) = [AiRun m 2048]"
  using generateAnswer_calls [of env q "buildContext idx (Some fs)"]
  by (auto simp: finishAnswer_def Let_def split: prod.splits)

lemma finishAnswer_thinking:
  "thinking (fst (finishAnswer env q idx fs steps)) =
     steps @ [doneStep ''Building context'' ''Preparing repository context for analysis'',
              doneStep ''Generating response'' ''Analyzing with AI'']"
  by (simp add: finishAnswer_def Let_def split: prod.splits)

lemma analyzeQuery_calls:
  "c \<in> set (snd (analyzeQuery out env q idx)) \<Longrightarrow> \<exists>m n. c = AiRun m n"
  by (auto simp: analyzeQuery_def Let_def split: if_splits option.splits)


lemma finishAnswer_callsD:
  "finishAnswer env q idx fs steps = (reply, cs) \<Longrightarrow> \<exists>m. cs = [AiRun m 2048]"
  using finishAnswer_calls [of env q idx fs steps] by simp

lemma finishAnswer_thinkingD:
  "finishAnswer env q idx fs steps = (reply, cs) \<Longrightarrow>
     thinking reply =
       steps @ [doneStep ''Building context'' ''Preparing repository context for analysis'',
                doneStep ''Generating response'' ''Analyzing with AI'']"
  using finishAnswer_thinking [of env q idx fs steps] by simp

lemma analyzeQuery_callsD:
  "analyzeQuery out env q idx = (d, routing) \<Longrightarrow> c \<in> set routing \<Longrightarrow> \<exists>m n. c = AiRun m n"
  using analyzeQuery_calls [of c out env q idx] by simp

lemma answerWithIndex_calls:
  assumes "c \<in> set (snd (answerWithIndex out env url q idx steps))"
  shows "(\<exists>m n. c = AiRun m n) \<or> (\<exists>p. c = FetchFile p)"
  using assms
  by (auto simp: answerWithIndex_def Let_def
      split: sum.splits prod.splits if_splits
      dest: finishAnswer_callsD analyzeQuery_callsD)

lemma createHeaders_ok: "GITHUB_PAT env \<noteq> [] \<Longrightarrow> \<exists>h. createHeaders env = Inr h"
  by (simp add: createHeaders_def)

lemma indexRepository_no_metadata:
  "parseGitHubUrl url = Inr (ownr, repo) \<Longrightarrow> getMetadata gh (apiRepo ownr repo) = None \<Longrightarrow>
     indexRepository gh t url = Inr None"
  by (simp add: indexRepository_def fetchRepoMetadata_def Let_def)

lemma handleQuestion_hit:
  assumes "getRepoIndex env (atRequest clk) url = Some idx"
  shows "handleQuestion out env clk url q =
           (fst (answerWithIndex out env url q idx
                   [doneStep ''Loading repository data'' ''Checking cached index'']),
            CACHE_KV env,
            KvGet (cacheKey url) #
              snd (answerWithIndex out env url q idx
                     [doneStep ''Loading repository data'' ''Checking cached index'']))"
  using assms by (simp add: handleQuestion_def Let_def split: prod.splits)

lemma handleQuestion_miss_built:
  assumes "getRepoIndex env (atRequest clk) url = None" "GITHUB_PAT env \<noteq> []"
    "indexRepository (github out) (atBuild clk) url = Inr (Some idx)"
  shows "handleQuestion out env clk url q =
           (fst (answerWithIndex out env url q idx
                   [doneStep ''Loading repository data'' ''Checking cached index'',
                    doneStep ''Rebuilding index'' ''Cache expired, fetching fresh data'']),
            kvPut (CACHE_KV env) (atPut clk) (cacheKey url) idx CACHE_TTL,
            [KvGet (cacheKey url), IndexRepository url, KvPut (cacheKey url) CACHE_TTL] @
              snd (answerWithIndex out env url q idx
                     [doneStep ''Loading repository data'' ''Checking cached index'',
                      doneStep ''Rebuilding index'' ''Cache expired, fetching fresh data'']))"
proof -
  from assms(2) obtain h where "createHeaders env = Inr h" using createHeaders_ok by blast
  with assms(1,3) show ?thesis
    by (simp add: handleQuestion_def Let_def split: prod.splits)
qed

lemma handleQuestion_miss_failed:
  assumes "getRepoIndex env (atRequest clk) url = None" "GITHUB_PAT env \<noteq> []"
    "indexRepository (github out) (atBuild clk) url = Inr None"
  shows "handleQuestion out env clk url q =
           (Inr accessFailure, CACHE_KV env, [KvGet (cacheKey url), IndexRepository url])"
proof -
  from assms(2) obtain h where "createHeaders env = Inr h" using createHeaders_ok by blast
  with assms(1,3) show ?thesis
    by (simp add: handleQuestion_def Let_def)
qed

lemma handleRepoIndexing_fresh:
  assumes "getRepoIndex env (atRequest clk) url = Some ex" "fresh (atRequest clk) ex"
  shows "handleRepoIndexing out env clk url =
           (Inr \<lparr>success = True, message = ''Repository already indexed'',
                 stats = Some (statsOf ex True)\<rparr>,
            CACHE_KV env, [KvGet (cacheKey url)])"
  using assms by (simp add: handleRepoIndexing_def Let_def)

lemma handleRepoIndexing_rebuild:
  assumes "\<not> (\<exists>ex. getRepoIndex env (atRequest clk) url = Some ex \<and> fresh (atRequest clk) ex)"
    "GITHUB_PAT env \<noteq> []"
  shows "handleRepoIndexing out env clk url =
           (case indexRepository (github out) (atBuild clk) url of
              Inl e \<Rightarrow> (Inl e, CACHE_KV env, [KvGet (cacheKey url), IndexRepository url])
            | Inr None \<Rightarrow>
                (Inr \<lparr>success = False,
                      message = ''Failed to index repository. Check if the URL is correct and the repository is public.'',
                      stats = None\<rparr>,
                 CACHE_KV env, [KvGet (cacheKey url), IndexRepository url])
            | Inr (Some idx) \<Rightarrow>
                (Inr \<lparr>success = True, message = ''Repository indexed successfully'',
                      stats = Some (statsOf idx False)\<rparr>,
                 kvPut (CACHE_KV env) (atPut clk) (cacheKey url) idx CACHE_TTL,
                 [KvGet (cacheKey url), IndexRepository url, KvPut (cacheKey url) CACHE_TTL]))"
proof -
  from assms(2) obtain h where h: "createHeaders env = Inr h" using createHeaders_ok by blast
  have "\<not> (case getRepoIndex env (atRequest clk) url of None \<Rightarrow> False
            | Some ex \<Rightarrow> fresh (atRequest clk) ex)"
    using assms(1) by (auto split: option.splits)
  then show ?thesis
    by (simp add: handleRepoIndexing_def Let_def h)
qed

section \<open>Claims about the cache\<close>

lemma sample_indexRepository_at:
  "indexRepository sampleGitHub t ''github.com/octo/hello''
     = Inr (Some (sampleIndex\<lparr>indexedAt := t\<rparr>))"
proof -
  have m: "fetchRepoMetadata sampleGitHub ''octo'' ''hello'' = Some sampleMetadata"
    by (simp add: fetchRepoMetadata_def apiRepo_def sampleGitHub_def)
  have p: "fetchPullRequests sampleGitHub ''octo'' ''hello'' 15 = []"
    by (simp add: fetchPullRequests_def sampleGitHub_def)
  have l: "fetchLanguages sampleGitHub ''octo'' ''hello'' = []"
    by (simp add: fetchLanguages_def sampleGitHub_def)
  show ?thesis
    unfolding indexRepository_def
    by (simp add: parse_octo_hello sample_readme_fetch sample_contributing_fetch
        sample_issues_fetch sample_tree_fetch m p l Let_def sampleMetadata_def sampleIndex_def
        truthy_def truncateText_def toIssueInfo_def sampleRawIssue_def)
qed

lemma cachedEnv_get:
  "getRepoIndex cachedEnv t ''github.com/octo/hello''
     = (if t < 1802000 then Some sampleIndex else None)"
  by (simp add: getRepoIndex_def cachedEnv_def kvGet_kvPut CACHE_TTL_def)

lemma cachedEnv_pat: "GITHUB_PAT cachedEnv \<noteq> []"
  by (simp add: cachedEnv_def sampleEnv_def)

lemma sampleIndex_indexedAt: "indexedAt sampleIndex = 0"
  by (simp add: sampleIndex_def)

text \<open>
  Claim C4, as the code has it. \<open>handleRepoIndexing\<close> applies the freshness policy: a
  snapshot that the store returns and whose age is below 1800 seconds is served from
  the cache, with no rebuild and no write; otherwise (no snapshot, or one of 1800
  seconds or more) there is exactly one rebuild and, when it yields a snapshot, one put
  that stores the new snapshot under a new TTL of 1800 seconds. \<open>handleQuestion\<close>
  applies no freshness test: it serves whatever snapshot the store returns, of any age,
  and rebuilds, once, exactly when the store returns none; then it puts the new snapshot
  as above.
\<close>

theorem C4_cache_freshness:
  "(\<forall>ex. getRepoIndex env (atRequest clk) url = Some ex
          \<and> atRequest clk - indexedAt ex < 1800000 \<longrightarrow>
      handleRepoIndexing out env clk url =
        (Inr \<lparr>success = True, message = ''Repository already indexed'',
              stats = Some (statsOf ex True)\<rparr>,
         CACHE_KV env, [KvGet (cacheKey url)]))
   \<and> (\<forall>idx. (getRepoIndex env (atRequest clk) url = None
              \<or> (\<exists>ex. getRepoIndex env (atRequest clk) url = Some ex
                     \<and> 1800000 \<le> atRequest clk - indexedAt ex))
            \<and> GITHUB_PAT env \<noteq> []
            \<and> indexRepository (github out) (atBuild clk) url = Inr (Some idx) \<longrightarrow>
      snd (handleRepoIndexing out env clk url) =
        (kvPut (CACHE_KV env) (atPut clk) (cacheKey url) idx 1800,
         [KvGet (cacheKey url), IndexRepository url, KvPut (cacheKey url) 1800])
      \<and> (\<forall>t. kvGet (fst (snd (handleRepoIndexing out env clk url))) t (cacheKey url)
               = (if t < atPut clk + 1800000 then Some idx else None)))
   \<and> (\<forall>ex. getRepoIndex env (atRequest clk) url = Some ex \<longrightarrow>
        fst (snd (handleQuestion out env clk url q)) = CACHE_KV env
        \<and> (\<forall>u. IndexRepository u \<notin> set (snd (snd (handleQuestion out env clk url q))))
        \<and> (\<forall>k n. KvPut k n \<notin> set (snd (snd (handleQuestion out env clk url q)))))
   \<and> (\<forall>idx. getRepoIndex env (atRequest clk) url = None
            \<and> GITHUB_PAT env \<noteq> []
            \<and> indexRepository (github out) (atBuild clk) url = Inr (Some idx) \<longrightarrow>
        fst (snd (handleQuestion out env clk url q))
          = kvPut (CACHE_KV env) (atPut clk) (cacheKey url) idx 1800
        \<and> take 3 (snd (snd (handleQuestion out env clk url q)))
          = [KvGet (cacheKey url), IndexRepository url, KvPut (cacheKey url) 1800]
        \<and> (\<forall>u. IndexRepository u \<notin> set (drop 3 (snd (snd (handleQuestion out env clk url q))))))"
proof (intro conjI allI impI)
  fix ex
  assume "getRepoIndex env (atRequest clk) url = Some ex \<and> atRequest clk - indexedAt ex < 1800000"
  then show "handleRepoIndexing out env clk url =
        (Inr \<lparr>success = True, message = ''Repository already indexed'',
              stats = Some (statsOf ex True)\<rparr>,
         CACHE_KV env, [KvGet (cacheKey url)])"
    by (intro handleRepoIndexing_fresh) (simp_all add: fresh_iff)
next
  fix idx
  assume h: "(getRepoIndex env (atRequest clk) url = None
              \<or> (\<exists>ex. getRepoIndex env (atRequest clk) url = Some ex
                     \<and> 1800000 \<le> atRequest clk - indexedAt ex))
            \<and> GITHUB_PAT env \<noteq> []
            \<and> indexRepository (github out) (atBuild clk) url = Inr (Some idx)"
  then have stale: "\<not> (\<exists>ex. getRepoIndex env (atRequest clk) url = Some ex \<and> fresh (atRequest clk) ex)"
    by (auto simp: fresh_iff)
  from h have pat: "GITHUB_PAT env \<noteq> []" by simp
  have r: "snd (handleRepoIndexing out env clk url) =
        (kvPut (CACHE_KV env) (atPut clk) (cacheKey url) idx 1800,
         [KvGet (cacheKey url), IndexRepository url, KvPut (cacheKey url) 1800])"
    using h by (simp add: handleRepoIndexing_rebuild [OF stale pat] CACHE_TTL_def)
  then show "snd (handleRepoIndexing out env clk url) =
        (kvPut (CACHE_KV env) (atPut clk) (cacheKey url) idx 1800,
         [KvGet (cacheKey url), IndexRepository url, KvPut (cacheKey url) 1800])" .
  fix t
  show "kvGet (fst (snd (handleRepoIndexing out env clk url))) t (cacheKey url)
               = (if t < atPut clk + 1800000 then Some idx else None)"
    by (simp add: r kvGet_kvPut)
next
  fix ex
  assume h: "getRepoIndex env (atRequest clk) url = Some ex"
  show "fst (snd (handleQuestion out env clk url q)) = CACHE_KV env"
    by (simp add: handleQuestion_hit [OF h])
  fix u
  show "IndexRepository u \<notin> set (snd (snd (handleQuestion out env clk url q)))"
    using answerWithIndex_calls [of "IndexRepository u" out env url q ex]
    by (auto simp: handleQuestion_hit [OF h])
next
  fix ex k n
  assume h: "getRepoIndex env (atRequest clk) url = Some ex"
  show "KvPut k n \<notin> set (snd (snd (handleQuestion out env clk url q)))"
    using answerWithIndex_calls [of "KvPut k n" out env url q ex]
    by (auto simp: handleQuestion_hit [OF h])
next
  fix idx
  assume h: "getRepoIndex env (atRequest clk) url = None
            \<and> GITHUB_PAT env \<noteq> []
            \<and> indexRepository (github out) (atBuild clk) url = Inr (Some idx)"
  then have e: "handleQuestion out env clk url q =
           (fst (answerWithIndex out env url q idx
                   [doneStep ''Loading repository data'' ''Checking cached index'',
                    doneStep ''Rebuilding index'' ''Cache expired, fetching fresh data'']),
            kvPut (CACHE_KV env) (atPut clk) (cacheKey url) idx CACHE_TTL,
            [KvGet (cacheKey url), IndexRepository url, KvPut (cacheKey url) CACHE_TTL] @
              snd (answerWithIndex out env url q idx
                     [doneStep ''Loading repository data'' ''Checking cached index'',
                      doneStep ''Rebuilding index'' ''Cache expired, fetching fresh data'']))"
    by (intro handleQuestion_miss_built) simp_all
  show "fst (snd (handleQuestion out env clk url q))
          = kvPut (CACHE_KV env) (atPut clk) (cacheKey url) idx 1800"
    by (simp add: e CACHE_TTL_def)
  show "take 3 (snd (snd (handleQuestion out env clk url q)))
          = [KvGet (cacheKey url), IndexRepository url, KvPut (cacheKey url) 1800]"
    by (simp add: e CACHE_TTL_def)
  fix u
  show "IndexRepository u \<notin> set (drop 3 (snd (snd (handleQuestion out env clk url q))))"
    using answerWithIndex_calls [of "IndexRepository u" out env url q idx]
    by (auto simp: e)
qed

theorem C4_cache_freshness_witness:
  "snd (snd (handleRepoIndexing sampleOutside cachedEnv
               \<lparr>atRequest = 1799000, atBuild = 1799100, atPut = 1799200\<rparr>
               ''github.com/octo/hello''))
     = [KvGet ''repo:github.com/octo/hello'']
   \<and> snd (snd (handleRepoIndexing sampleOutside cachedEnv
               \<lparr>atRequest = 1801000, atBuild = 1801100, atPut = 1801200\<rparr>
               ''github.com/octo/hello''))
     = [KvGet ''repo:github.com/octo/hello'', IndexRepository ''github.com/octo/hello'',
        KvPut ''repo:github.com/octo/hello'' 1800]"
proof -
  have a: "getRepoIndex cachedEnv (atRequest \<lparr>atRequest = 1799000, atBuild = 1799100, atPut = 1799200\<rparr>)
             ''github.com/octo/hello'' = Some sampleIndex
           \<and> atRequest \<lparr>atRequest = 1799000, atBuild = 1799100, atPut = 1799200\<rparr>
               - indexedAt sampleIndex < 1800000"
    by (simp add: cachedEnv_get sampleIndex_indexedAt)
  have b: "(getRepoIndex cachedEnv (atRequest \<lparr>atRequest = 1801000, atBuild = 1801100, atPut = 1801200\<rparr>)
              ''github.com/octo/hello'' = None
            \<or> (\<exists>ex. getRepoIndex cachedEnv
                       (atRequest \<lparr>atRequest = 1801000, atBuild = 1801100, atPut = 1801200\<rparr>)
                       ''github.com/octo/hello'' = Some ex
                  \<and> 1800000 \<le> atRequest \<lparr>atRequest = 1801000, atBuild = 1801100, atPut = 1801200\<rparr>
                       - indexedAt ex))
           \<and> GITHUB_PAT cachedEnv \<noteq> []
           \<and> indexRepository (github sampleOutside)
               (atBuild \<lparr>atRequest = 1801000, atBuild = 1801100, atPut = 1801200\<rparr>)
               ''github.com/octo/hello'' = Inr (Some (sampleIndex\<lparr>indexedAt := 1801100\<rparr>))"
    by (simp add: cachedEnv_get sampleIndex_indexedAt cachedEnv_pat sampleOutside_def
        sample_indexRepository_at)
  from C4_cache_freshness [of cachedEnv "\<lparr>atRequest = 1799000, atBuild = 1799100, atPut = 1799200\<rparr>"
      "''github.com/octo/hello''" sampleOutside "[]"] a
  have "handleRepoIndexing sampleOutside cachedEnv
               \<lparr>atRequest = 1799000, atBuild = 1799100, atPut = 1799200\<rparr> ''github.com/octo/hello''
        = (Inr \<lparr>success = True, message = ''Repository already indexed'',
              stats = Some (statsOf sampleIndex True)\<rparr>,
           CACHE_KV cachedEnv, [KvGet (cacheKey ''github.com/octo/hello'')])"
    by blast
  moreover
  from C4_cache_freshness [of cachedEnv "\<lparr>atRequest = 1801000, atBuild = 1801100, atPut = 1801200\<rparr>"
      "''github.com/octo/hello''" sampleOutside "[]"] b
  have "snd (handleRepoIndexing sampleOutside cachedEnv
               \<lparr>atRequest = 1801000, atBuild = 1801100, atPut = 1801200\<rparr> ''github.com/octo/hello'')
        = (kvPut (CACHE_KV cachedEnv)
             (atPut \<lparr>atRequest = 1801000, atBuild = 1801100, atPut = 1801200\<rparr>)
             (cacheKey ''github.com/octo/hello'') (sampleIndex\<lparr>indexedAt := 1801100\<rparr>) 1800,
           [KvGet (cacheKey ''github.com/octo/hello''), IndexRepository ''github.com/octo/hello'',
            KvPut (cacheKey ''github.com/octo/hello'') 1800])"
    by blast
  ultimately show ?thesis by (simp add: cacheKey_def)
qed

text \<open>
  The snapshot built at time 0 is still in the store 1801 seconds later, and
  \<open>handleQuestion\<close> answers from it without a rebuild, though its age is not below
  1800 seconds.
\<close>

theorem C4_question_ignores_age_counterexample:
  "\<not> fresh 1801000 sampleIndex
   \<and> getRepoIndex cachedEnv 1801000 ''github.com/octo/hello'' = Some sampleIndex
   \<and> IndexRepository ''github.com/octo/hello''
       \<notin> set (snd (snd (handleQuestion sampleOutside cachedEnv
                          \<lparr>atRequest = 1801000, atBuild = 1801100, atPut = 1801200\<rparr>
                          ''github.com/octo/hello'' ''What are good first issues?'')))"
proof -
  have g: "getRepoIndex cachedEnv
             (atRequest \<lparr>atRequest = 1801000, atBuild = 1801100, atPut = 1801200\<rparr>)
             ''github.com/octo/hello'' = Some sampleIndex"
    by (simp add: cachedEnv_get)
  have "IndexRepository ''github.com/octo/hello''
       \<notin> set (snd (snd (handleQuestion sampleOutside cachedEnv
                          \<lparr>atRequest = 1801000, atBuild = 1801100, atPut = 1801200\<rparr>
                          ''github.com/octo/hello'' ''What are good first issues?'')))"
    using answerWithIndex_calls [of "IndexRepository ''github.com/octo/hello''" sampleOutside
        cachedEnv "''github.com/octo/hello''" "''What are good first issues?''" sampleIndex]
    by (auto simp: handleQuestion_hit [OF g])
  moreover have "\<not> fresh 1801000 sampleIndex"
    by (simp add: fresh_iff sampleIndex_indexedAt)
  moreover have "getRepoIndex cachedEnv 1801000 ''github.com/octo/hello'' = Some sampleIndex"
    by (simp add: cachedEnv_get)
  ultimately show ?thesis by blast
qed

section \<open>Claims about a failed build\<close>


lemma sampleEnv_miss: "getRepoIndex sampleEnv t url = None"
  by (simp add: getRepoIndex_def sampleEnv_def kvGet_def)

lemma sampleEnv_pat: "GITHUB_PAT sampleEnv \<noteq> []"
  by (simp add: sampleEnv_def)

text \<open>
  Claim C6. When the metadata fetch of a build fails, \<open>indexRepository\<close> returns
  \<open>null\<close>. A caller that had to build then returns its failure message
  (\<open>handleRepoIndexing\<close> the message that indexing failed, with the hint to check the
  URL and that the repository is public; \<open>handleQuestion\<close> the answer that it could
  not access the repository), makes no write to the store, and leaves the store exactly
  as it was.
\<close>

theorem C6_failed_build_leaves_cache:
  assumes "parseGitHubUrl url = Inr (ownr, repo)"
    and "getMetadata (github out) (apiRepo ownr repo) = None"
    and "GITHUB_PAT env \<noteq> []"
  shows "indexRepository (github out) (atBuild clk) url = Inr None
     \<and> (\<not> (\<exists>ex. getRepoIndex env (atRequest clk) url = Some ex \<and> fresh (atRequest clk) ex) \<longrightarrow>
          handleRepoIndexing out env clk url =
            (Inr \<lparr>success = False,
                  message = ''Failed to index repository. Check if the URL is correct and the repository is public.'',
                  stats = None\<rparr>,
             CACHE_KV env, [KvGet (cacheKey url), IndexRepository url]))
     \<and> (getRepoIndex env (atRequest clk) url = None \<longrightarrow>
          handleQuestion out env clk url q =
            (Inr \<lparr>answer = ''I couldn't access this repository. Please make sure the URL is correct and the repository is public, then try indexing it again.'',
                  thinking = [\<lparr>step = ''Error'', detail = ''Failed to access repository'',
                               status = Done\<rparr>],
                  debug = None\<rparr>,
             CACHE_KV env, [KvGet (cacheKey url), IndexRepository url]))"
proof (intro conjI impI)
  show b: "indexRepository (github out) (atBuild clk) url = Inr None"
    using assms(1,2) by (rule indexRepository_no_metadata)
  {
    assume "\<not> (\<exists>ex. getRepoIndex env (atRequest clk) url = Some ex \<and> fresh (atRequest clk) ex)"
    then show "handleRepoIndexing out env clk url =
            (Inr \<lparr>success = False,
                  message = ''Failed to index repository. Check if the URL is correct and the repository is public.'',
                  stats = None\<rparr>,
             CACHE_KV env, [KvGet (cacheKey url), IndexRepository url])"
      using handleRepoIndexing_rebuild [of env clk url out] assms(3) b by simp
  }
  {
    assume "getRepoIndex env (atRequest clk) url = None"
    then have "handleQuestion out env clk url q =
           (Inr accessFailure, CACHE_KV env, [KvGet (cacheKey url), IndexRepository url])"
      using assms(3) b by (rule handleQuestion_miss_failed)
    then show "handleQuestion out env clk url q =
            (Inr \<lparr>answer = ''I couldn't access this repository. Please make sure the URL is correct and the repository is public, then try indexing it again.'',
                  thinking = [\<lparr>step = ''Error'', detail = ''Failed to access repository'',
                               status = Done\<rparr>],
                  debug = None\<rparr>,
             CACHE_KV env, [KvGet (cacheKey url), IndexRepository url])"
      by (simp add: accessFailure_def doneStep_def)
  }
qed

theorem C6_failed_build_leaves_cache_witness:
  "handleRepoIndexing \<lparr>github = unreachableGitHub, jsonParse = sampleJsonParse\<rparr> sampleEnv
      \<lparr>atRequest = 0, atBuild = 100, atPut = 200\<rparr> ''github.com/octo/hello''
     = (Inr \<lparr>success = False,
             message = ''Failed to index repository. Check if the URL is correct and the repository is public.'',
             stats = None\<rparr>,
        CACHE_KV sampleEnv,
        [KvGet ''repo:github.com/octo/hello'', IndexRepository ''github.com/octo/hello''])"
  using C6_failed_build_leaves_cache [OF parse_octo_hello, of
      "\<lparr>github = unreachableGitHub, jsonParse = sampleJsonParse\<rparr>" sampleEnv
      "\<lparr>atRequest = 0, atBuild = 100, atPut = 200\<rparr>" "[]"]
  by (simp add: unreachableGitHub_def sampleEnv_pat sampleEnv_miss cacheKey_def)

section \<open>Claims about the trace\<close>



lemma answerWithIndex_type_error:
  assumes "parseGitHubUrl url = Inr (ownr, repo)"
    and "needsFiles (fst (analyzeQuery out env q idx))
         \<and> files (fst (analyzeQuery out env q idx)) \<noteq> []"
    and "asStrings (files (fst (analyzeQuery out env q idx))) = Inl e"
  shows "fst (answerWithIndex out env url q idx steps) = Inl e"
  using assms by (auto simp: answerWithIndex_def Let_def split: prod.splits)

















section \<open>Claims about a routing response of the wrong shape\<close>

lemma mixedFilesEnv_get: "getRepoIndex mixedFilesEnv t url = getRepoIndex cachedEnv t url"
  by (simp add: getRepoIndex_def mixedFilesEnv_def)

lemma mixed_cleaned:
  \<open>trim (removeFences (removeJsonFences ''{"needsFiles":true,"files":["a.ts",7]}''))
     = ''{"needsFiles":true,"files":["a.ts",7]}''\<close>
  by code_simp

lemma mixed_parse:
  \<open>parseQueryAnalysis sampleJsonParse ''{"needsFiles":true,"files":["a.ts",7]}''
     = \<lparr>needsFiles = True, files = [JString ''a.ts'', JNumber 7]\<rparr>\<close>
proof -
  have \<open>sampleJsonParse ''{"needsFiles":true,"files":["a.ts",7]}''
          = Some (JObject [(''needsFiles'', JBool True),
                           (''files'', JArray [JString ''a.ts'', JNumber 7])])\<close>
    by (simp add: sampleJsonParse_def)
  then show ?thesis by (simp add: parseQueryAnalysis_def mixed_cleaned)
qed

lemma mixed_decision:
  "fst (analyzeQuery sampleOutside mixedFilesEnv ''How does the component rendering work?'' sampleIndex)
     = \<lparr>needsFiles = True, files = [JString ''a.ts'', JNumber 7]\<rparr>"
proof -
  have \<open>AI mixedFilesEnv [(''user'', routingPrompt ''How does the component rendering work?'' sampleIndex)] 256
          = Some (ResponseObject (Some ''{"needsFiles":true,"files":["a.ts",7]}''))\<close>
    by (simp add: mixedFilesEnv_def)
  then show ?thesis
    by (simp add: analyzeQuery_def sample_question_patterns Let_def extractResponseText_def
        sampleOutside_def mixed_parse)
qed

text \<open>
  Claim C7 says that a routing response of the wrong shape gives the decision
  \<open>needsFiles = false\<close> with no files, and that it never aborts the answering of the
  question. The code does not keep this for a response whose \<open>files\<close> is an array with
  an element that is not a string. For the response
  \<open>{"needsFiles":true,"files":["a.ts",7]}\<close> \<open>parseQueryAnalysis\<close> returns
  \<open>needsFiles = true\<close> and the two elements as they are, and \<open>handleQuestion\<close>,
  asked a question that needs code about a cached repository, throws a \<open>TypeError\<close>
  where it calls \<open>split\<close> on the number, and returns no answer.
\<close>

theorem C7_non_string_file_aborts:
  \<open>parseQueryAnalysis sampleJsonParse ''{"needsFiles":true,"files":["a.ts",7]}''
     = \<lparr>needsFiles = True, files = [JString ''a.ts'', JNumber 7]\<rparr>
   \<and> fst (handleQuestion sampleOutside mixedFilesEnv
            \<lparr>atRequest = 1000, atBuild = 1100, atPut = 1200\<rparr>
            ''github.com/octo/hello'' ''How does the component rendering work?'')
     = Inl TypeError\<close>
proof -
  have g: "getRepoIndex mixedFilesEnv (atRequest \<lparr>atRequest = 1000, atBuild = 1100, atPut = 1200\<rparr>)
             ''github.com/octo/hello'' = Some sampleIndex"
    by (simp add: mixedFilesEnv_get cachedEnv_get)
  have "fst (answerWithIndex sampleOutside mixedFilesEnv ''github.com/octo/hello''
               ''How does the component rendering work?'' sampleIndex
               [doneStep ''Loading repository data'' ''Checking cached index'']) = Inl TypeError"
    by (rule answerWithIndex_type_error [OF parse_octo_hello]) (simp_all add: mixed_decision)
  then have "fst (handleQuestion sampleOutside mixedFilesEnv
            \<lparr>atRequest = 1000, atBuild = 1100, atPut = 1200\<rparr>
            ''github.com/octo/hello'' ''How does the component rendering work?'')
     = Inl TypeError"
    by (simp add: handleQuestion_hit [OF g])
  with mixed_parse show ?thesis by simp
qed

end
